theory Spec2Isabelle
  imports Complex_Main
begin

section \<open>Numbers and strings of the host language\<close>

text \<open>
  The program is TypeScript. Its \<^verbatim>\<open>number\<close> values are modelled as real numbers with
  exact arithmetic: the rounding of doubles, NaN, the infinities and the results of
  overflow or of a division by zero have no counterpart. Numbers that are integers by
  construction (table entries, loop counters, indices, days and weeks) are \<open>int\<close> or
  \<open>nat\<close>; strings are byte strings. \<^verbatim>\<open>Math.round\<close> rounds halves upwards.
\<close>

definition Math_round :: "real \<Rightarrow> int" where
  "Math_round x = \<lfloor>x + 1 / 2\<rfloor>"

definition Math_floor :: "real \<Rightarrow> int" where
  "Math_floor x = \<lfloor>x\<rfloor>"

text \<open>The remainder operator \<^verbatim>\<open>%\<close>: the quotient is truncated towards zero.\<close>

definition js_rem :: "real \<Rightarrow> real \<Rightarrow> real" where
  "js_rem x y = x - y * of_int (if 0 \<le> x / y then \<lfloor>x / y\<rfloor> else \<lceil>x / y\<rceil>)"

subsection \<open>Conversion of a string to a number\<close>

text \<open>
  \<^verbatim>\<open>Number(s)\<close> on a string: white space (here the ASCII white space) is trimmed,
  the empty string is 0, then either a prefixed binary, octal or hexadecimal integer, or
  an optionally signed decimal literal with optional fraction and exponent. \<open>None\<close>
  stands for NaN. The literal \<^verbatim>\<open>Infinity\<close> denotes no real number and is not accepted
  here.
\<close>

definition isWhiteSpace :: "char \<Rightarrow> bool" where
  "isWhiteSpace c = (c \<in> set [CHR 0x09, CHR 0x0A, CHR 0x0B, CHR 0x0C, CHR 0x0D, CHR 0x20])"

definition trim :: "string \<Rightarrow> string" where
  "trim s = rev (dropWhile isWhiteSpace (rev (dropWhile isWhiteSpace s)))"

definition digitVal :: "nat \<Rightarrow> char \<Rightarrow> nat option" where
  "digitVal b c =
     (let n = (of_char c :: nat);
          v = (if 48 \<le> n \<and> n \<le> 57 then Some (n - 48)
               else if 97 \<le> n \<and> n \<le> 102 then Some (n - 87)
               else if 65 \<le> n \<and> n \<le> 70 then Some (n - 55)
               else None)
      in case v of None \<Rightarrow> None | Some d \<Rightarrow> if d < b then Some d else None)"

fun digitsVal :: "nat \<Rightarrow> string \<Rightarrow> nat \<Rightarrow> nat option" where
  "digitsVal b [] acc = Some acc"
| "digitsVal b (c # cs) acc =
     (case digitVal b c of None \<Rightarrow> None | Some d \<Rightarrow> digitsVal b cs (acc * b + d))"

definition parseDigits :: "nat \<Rightarrow> string \<Rightarrow> nat option" where
  "parseDigits b s = (if s = [] then None else digitsVal b s 0)"

definition splitFirst :: "(char \<Rightarrow> bool) \<Rightarrow> string \<Rightarrow> string \<times> string option" where
  "splitFirst P s =
     (case dropWhile (\<lambda>c. \<not> P c) s of
        [] \<Rightarrow> (s, None)
      | _ # r \<Rightarrow> (takeWhile (\<lambda>c. \<not> P c) s, Some r))"

definition parseMantissa :: "string \<Rightarrow> real option" where
  "parseMantissa m =
     (case splitFirst (\<lambda>c. c = CHR ''.'') m of
        (ip, None) \<Rightarrow> map_option real (parseDigits 10 ip)
      | (ip, Some fp) \<Rightarrow>
          if ip = [] \<and> fp = [] then None
          else (case (digitsVal 10 ip 0, digitsVal 10 fp 0) of
                  (Some i, Some f) \<Rightarrow> Some (real i + real f / 10 ^ length fp)
                | _ \<Rightarrow> None))"

definition parseExponent :: "string \<Rightarrow> int option" where
  "parseExponent e =
     (case e of
        [] \<Rightarrow> None
      | c # r \<Rightarrow>
          if c = CHR ''+'' then map_option int (parseDigits 10 r)
          else if c = CHR ''-'' then map_option (\<lambda>n. - int n) (parseDigits 10 r)
          else map_option int (parseDigits 10 e))"

definition parseUnsignedDecimal :: "string \<Rightarrow> real option" where
  "parseUnsignedDecimal u =
     (case splitFirst (\<lambda>c. c = CHR ''e'' \<or> c = CHR ''E'') u of
        (m, None) \<Rightarrow> parseMantissa m
      | (m, Some e) \<Rightarrow>
          (case (parseMantissa m, parseExponent e) of
             (Some x, Some k) \<Rightarrow> Some (if 0 \<le> k then x * 10 ^ nat k else x / 10 ^ nat (- k))
           | _ \<Rightarrow> None))"

definition parseDecimal :: "string \<Rightarrow> real option" where
  "parseDecimal t =
     (case t of
        [] \<Rightarrow> None
      | c # u \<Rightarrow>
          if c = CHR ''+'' then parseUnsignedDecimal u
          else if c = CHR ''-'' then map_option uminus (parseUnsignedDecimal u)
          else parseUnsignedDecimal t)"

definition Number :: "string \<Rightarrow> real option" where
  "Number s =
     (let t = trim s in
      if t = [] then Some 0
      else case t of
        c # x # r \<Rightarrow>
          if c = CHR ''0'' \<and> (x = CHR ''x'' \<or> x = CHR ''X'') then map_option real (parseDigits 16 r)
          else if c = CHR ''0'' \<and> (x = CHR ''o'' \<or> x = CHR ''O'') then map_option real (parseDigits 8 r)
          else if c = CHR ''0'' \<and> (x = CHR ''b'' \<or> x = CHR ''B'') then map_option real (parseDigits 2 r)
          else parseDecimal t
      | _ \<Rightarrow> parseDecimal t)"

text \<open>\<^verbatim>\<open>s.split(':')\<close>: the empty string gives one empty part.\<close>

fun split_colon :: "string \<Rightarrow> string list" where
  "split_colon [] = [[]]"
| "split_colon (c # cs) =
     (if c = CHR '':'' then [] # split_colon cs
      else (case split_colon cs of [] \<Rightarrow> [[c]] | p # ps \<Rightarrow> (c # p) # ps))"

text \<open>Decimal rendering of an integer, and \<^verbatim>\<open>padStart(2, '0')\<close>.\<close>

fun showNat :: "nat \<Rightarrow> string" where
  "showNat n = (if n < 10 then [char_of (48 + n)] else showNat (n div 10) @ [char_of (48 + n mod 10)])"

declare showNat.simps [simp del]

definition showInt :: "int \<Rightarrow> string" where
  "showInt i = (if i < 0 then CHR ''-'' # showNat (nat (- i)) else showNat (nat i))"

definition padStart2 :: "string \<Rightarrow> string" where
  "padStart2 s = replicate (2 - length s) CHR ''0'' @ s"

section \<open>vdot.ts\<close>

record ParsedTime =
  hours :: real
  minutes :: real
  seconds :: real
  totalSeconds :: real

definition parseTime :: "string \<Rightarrow> ParsedTime option" where
  "parseTime timeStr =
     (if timeStr = [] then None
      else
        let parts = map Number (split_colon timeStr) in
        if list_ex (\<lambda>p. p = None) parts then None
        else
          (case (case map the parts of
                   [m, s] \<Rightarrow> Some (0, m, s)
                 | [h, m, s] \<Rightarrow> Some (h, m, s)
                 | _ \<Rightarrow> None) of
             None \<Rightarrow> None
           | Some (h, m, s) \<Rightarrow>
               if m \<ge> 60 \<or> s \<ge> 60 \<or> m < 0 \<or> s < 0 \<or> h < 0 then None
               else Some \<lparr>hours = h, minutes = m, seconds = s,
                          totalSeconds = h * 3600 + m * 60 + s\<rparr>))"

definition formatTime :: "real \<Rightarrow> string" where
  "formatTime secs =
     (let h = Math_floor (secs / 3600);
          m = Math_floor (js_rem secs 3600 / 60);
          s = Math_round (js_rem secs 60)
      in if h > 0 then showInt h @ '':'' @ padStart2 (showInt m) @ '':'' @ padStart2 (showInt s)
         else showInt m @ '':'' @ padStart2 (showInt s))"

datatype Unit = Km | Mile

definition formatPace :: "real \<Rightarrow> Unit \<Rightarrow> string" where
  "formatPace secondsPerKm unit =
     (let pace = (if unit = Mile then secondsPerKm * 1.60934 else secondsPerKm);
          m = Math_floor (pace / 60);
          s = Math_round (js_rem pace 60)
      in showInt m @ '':'' @ padStart2 (showInt s))"

definition calculateVDOT :: "real \<Rightarrow> real \<Rightarrow> real" where
  "calculateVDOT distanceMeters timeSeconds =
     (let timeMinutes = timeSeconds / 60;
          velocity = distanceMeters / timeMinutes;
          vo2 = - 4.6 + 0.182258 * velocity + 0.000104 * velocity * velocity;
          percentMax = 0.8 + 0.1894393 * exp (- 0.012778 * timeMinutes)
                           + 0.2989558 * exp (- 0.1932605 * timeMinutes);
          vdotValue = vo2 / percentMax
      in of_int (Math_round (vdotValue * 10)) / 10)"




definition tolerance :: real where
  "tolerance = 0.1"

text \<open>
  The binary search of \<^verbatim>\<open>calculateTimeFromVDOT\<close>. \<open>low\<close> and \<open>high\<close> are whole seconds;
  the loop is the recursion below, and its termination is proved from the width
  \<open>high - low\<close>.

  The program takes the test \<^verbatim>\<open>Math.abs(calculatedVdot - vdot) < tolerance\<close> on doubles.
  Where the two values are one tenth apart up to their last bits, the outcome depends
  on the rounding of the doubles and need not be the outcome on the exact values. The
  search therefore takes the outcome of that test as its first argument
  \<open>withinTolerance\<close>, applied to the two values; what is proved of the search holds for
  every such test, the one of the program included. \<open>exactTest\<close> is the test in exact
  arithmetic, used where an example needs a concrete one.
\<close>

definition exactTest :: "real \<Rightarrow> real \<Rightarrow> bool" where
  "exactTest calculatedVdot vdot = (\<bar>calculatedVdot - vdot\<bar> < tolerance)"

function searchTime :: "(real \<Rightarrow> real \<Rightarrow> bool) \<Rightarrow> real \<Rightarrow> real \<Rightarrow> int \<Rightarrow> int \<Rightarrow> int" where
  "searchTime withinTolerance vdot distanceMeters low high =
     (if high - low > 1 then
        (let mid = Math_floor (of_int (low + high) / 2);
             calculatedVdot = calculateVDOT distanceMeters (of_int mid)
         in if withinTolerance calculatedVdot vdot then mid
            else if calculatedVdot > vdot then searchTime withinTolerance vdot distanceMeters mid high
            else searchTime withinTolerance vdot distanceMeters low mid)
      else Math_round (of_int (low + high) / 2))"
  by pat_completeness auto
termination
proof (relation "measure (\<lambda>(w, v, d, low, high). nat (high - low))")
  show "wf (measure (\<lambda>(w :: real \<Rightarrow> real \<Rightarrow> bool, v :: real, d :: real, low :: int, high :: int).
      nat (high - low)))"
    by simp
next
  fix w :: "real \<Rightarrow> real \<Rightarrow> bool" and vdot distanceMeters :: real and low high mid :: int and c :: real
  assume "1 < high - low" and "mid = Math_floor (real_of_int (low + high) / 2)"
  then show "((w, vdot, distanceMeters, mid, high), (w, vdot, distanceMeters, low, high))
      \<in> measure (\<lambda>(w, v, d, low, high). nat (high - low))"
    using floor_divide_of_int_eq [where ?'a = real, of "low + high" 2]
    by (simp add: Math_floor_def)
next
  fix w :: "real \<Rightarrow> real \<Rightarrow> bool" and vdot distanceMeters :: real and low high mid :: int and c :: real
  assume "1 < high - low" and "mid = Math_floor (real_of_int (low + high) / 2)"
  then show "((w, vdot, distanceMeters, low, mid), (w, vdot, distanceMeters, low, high))
      \<in> measure (\<lambda>(w, v, d, low, high). nat (high - low))"
    using floor_divide_of_int_eq [where ?'a = real, of "low + high" 2]
    by (simp add: Math_floor_def)
qed

declare searchTime.simps [simp del]

definition calculateTimeFromVDOT :: "(real \<Rightarrow> real \<Rightarrow> bool) \<Rightarrow> real \<Rightarrow> real \<Rightarrow> int" where
  "calculateTimeFromVDOT withinTolerance vdot distanceMeters =
     searchTime withinTolerance vdot distanceMeters (1 * 60) (6 * 3600)"

text \<open>
  The same loop with a budget of iterations: \<open>None\<close> when the budget is used up before
  the loop has left.
\<close>

fun searchTimeFuel ::
  "nat \<Rightarrow> (real \<Rightarrow> real \<Rightarrow> bool) \<Rightarrow> real \<Rightarrow> real \<Rightarrow> int \<Rightarrow> int \<Rightarrow> int option" where
  "searchTimeFuel n withinTolerance vdot distanceMeters low high =
     (if high - low > 1 then
        (case n of
           0 \<Rightarrow> None
         | Suc k \<Rightarrow>
            (let mid = Math_floor (of_int (low + high) / 2);
                 calculatedVdot = calculateVDOT distanceMeters (of_int mid)
             in if withinTolerance calculatedVdot vdot then Some mid
                else if calculatedVdot > vdot
                     then searchTimeFuel k withinTolerance vdot distanceMeters mid high
                     else searchTimeFuel k withinTolerance vdot distanceMeters low mid))
      else Some (Math_round (of_int (low + high) / 2)))"

declare searchTimeFuel.simps [simp del]

section \<open>types\<close>

text \<open>
  Field names that occur in several interfaces of the source, or that are constants of
  HOL, are told apart by a prefix: \<open>min\<close>/\<open>max\<close> are \<open>minimum\<close>/\<open>maximum\<close>, the
  \<open>type\<close> fields are \<open>sessionType\<close>, \<open>intervalType\<close>, \<open>raceType\<close>, \<open>cfgType\<close>.
\<close>

datatype Distance = D5K | D10K | D21K | D42K

datatype SessionType = Easy | Threshold | Long | Test | Rest | RaceDay

datatype RaceType = TypeA | TypeB

datatype IntervalType = Short | Medium | LongInterval

definition DISTANCE_METERS :: "Distance \<Rightarrow> real" where
  "DISTANCE_METERS d = (case d of D5K \<Rightarrow> 5000 | D10K \<Rightarrow> 10000 | D21K \<Rightarrow> 21097.5 | D42K \<Rightarrow> 42195)"

definition distanceName :: "Distance \<Rightarrow> string" where
  "distanceName d = (case d of D5K \<Rightarrow> ''5K'' | D10K \<Rightarrow> ''10K'' | D21K \<Rightarrow> ''21K'' | D42K \<Rightarrow> ''42K'')"

record Race =
  raceId :: string
  raceName :: string
  raceDate :: string
  raceType :: RaceType
  raceDistance :: Distance

record UserInput =
  targetDistance :: Distance
  time5K :: "string option"
  time10K :: "string option"
  trainingDays :: real
  races :: "Race list"
  unit :: "Unit option"

record 'a MinMax =
  minimum :: 'a
  maximum :: 'a

record IntervalPaces =
  short :: "real MinMax"
  medium :: "real MinMax"
  long :: "real MinMax"

record Paces =
  threshold :: real
  easy :: real
  intervals :: IntervalPaces

record IntervalSession =
  intervalType :: IntervalType
  reps :: "nat MinMax"
  durationLabel :: string
  paceRange :: "real MinMax"
  recovery :: nat

record SessionPaces =
  target :: real
  targetRange :: "real MinMax option"

record TrainingSession =
  day :: int
  sessionType :: SessionType
  title :: string
  description :: string
  duration :: "nat option"
  sessionIntervals :: "IntervalSession option"
  sessionPaces :: "SessionPaces option"
  race :: "Race option"

record WeekPlan =
  weekNumber :: int
  isTestWeek :: bool
  isRecoveryWeek :: bool
  sessions :: "TrainingSession list"
  totalVolume :: "int option"

record TrainingBlock =
  blockNumber :: int
  weeks :: "WeekPlan list"
  startDate :: "string option"
  endDate :: "string option"
  vdot :: real
  paces :: Paces

section \<open>paces.ts\<close>

text \<open>
  The functions that call the search pass the tolerance test on; it is their first
  argument.
\<close>

definition calculateThresholdPace :: "(real \<Rightarrow> real \<Rightarrow> bool) \<Rightarrow> real \<Rightarrow> real" where
  "calculateThresholdPace withinTolerance v =
     (let thresholdVdot = v * 0.88;
          thresholdDistance = 15000;
          thresholdTime = calculateTimeFromVDOT withinTolerance (thresholdVdot + 5) thresholdDistance
      in of_int thresholdTime / (thresholdDistance / 1000))"

definition calculateThresholdPaceFrom10K :: "real \<Rightarrow> real" where
  "calculateThresholdPaceFrom10K time10KSeconds = (let pace10K = time10KSeconds / 10 in pace10K * 1.05)"

definition calculateEasyPaceFromThreshold :: "real \<Rightarrow> real" where
  "calculateEasyPaceFromThreshold thresholdPace = thresholdPace * 1.38"

definition calculateNSIntervalPaces :: "(real \<Rightarrow> real \<Rightarrow> bool) \<Rightarrow> real \<Rightarrow> IntervalPaces" where
  "calculateNSIntervalPaces withinTolerance v =
     (let pace15K = of_int (calculateTimeFromVDOT withinTolerance v 15000) / 15;
          paceHM = of_int (calculateTimeFromVDOT withinTolerance v (DISTANCE_METERS D21K)) / 21.0975;
          pace30K = of_int (calculateTimeFromVDOT withinTolerance v 30000) / 30
      in \<lparr>short = \<lparr>minimum = of_int (Math_floor (pace15K - 3)),
                     maximum = of_int (Math_floor (pace15K + 4))\<rparr>,
          medium = \<lparr>minimum = of_int (Math_floor (paceHM - 3)),
                     maximum = of_int (Math_floor (paceHM + 4))\<rparr>,
          long = \<lparr>minimum = of_int (Math_floor (pace30K - 3)),
                   maximum = of_int (Math_floor (pace30K + 5))\<rparr>\<rparr>)"

definition calculatePaces :: "(real \<Rightarrow> real \<Rightarrow> bool) \<Rightarrow> real \<Rightarrow> Paces" where
  "calculatePaces withinTolerance v =
     (let thresholdP = calculateThresholdPace withinTolerance v;
          easyP = calculateEasyPaceFromThreshold thresholdP;
          intervalsP = calculateNSIntervalPaces withinTolerance v
      in \<lparr>threshold = of_int (Math_round thresholdP),
          easy = of_int (Math_round easyP),
          intervals = intervalsP\<rparr>)"

record NSConfig =
  nsReps :: "nat MinMax"
  nsDuration :: string
  paceDesc :: string
  nsRecovery :: nat

text \<open>\<^verbatim>\<open>NS_INTERVALS.byTime\<close>; the dash of the labels is U+2013 in UTF-8.\<close>

definition NS_INTERVALS_byTime :: "IntervalType \<Rightarrow> NSConfig" where
  "NS_INTERVALS_byTime i =
     (case i of
        Short \<Rightarrow> \<lparr>nsReps = \<lparr>minimum = 8, maximum = 12\<rparr>,
                   nsDuration = ''3'' @ [CHR 0xE2, CHR 0x80, CHR 0x93] @ ''4'' @ [CHR 0x27],
                   paceDesc = ''15K pace'', nsRecovery = 60\<rparr>
      | Medium \<Rightarrow> \<lparr>nsReps = \<lparr>minimum = 4, maximum = 6\<rparr>,
                    nsDuration = ''6'' @ [CHR 0xE2, CHR 0x80, CHR 0x93] @ ''8'' @ [CHR 0x27],
                    paceDesc = ''HM pace'', nsRecovery = 60\<rparr>
      | LongInterval \<Rightarrow> \<lparr>nsReps = \<lparr>minimum = 3, maximum = 3\<rparr>,
                    nsDuration = ''10'' @ [CHR 0xE2, CHR 0x80, CHR 0x93] @ ''12'' @ [CHR 0x27],
                    paceDesc = ''~30K pace'', nsRecovery = 60\<rparr>)"

section \<open>plan-generator.ts\<close>

record DurationConfig =
  base :: nat
  maxDuration :: nat
  unload :: nat

definition EASY_RUN_DURATIONS :: "Distance \<Rightarrow> DurationConfig" where
  "EASY_RUN_DURATIONS d =
     (case d of
        D5K \<Rightarrow> \<lparr>base = 45, maxDuration = 45, unload = 30\<rparr>
      | D10K \<Rightarrow> \<lparr>base = 50, maxDuration = 50, unload = 35\<rparr>
      | D21K \<Rightarrow> \<lparr>base = 60, maxDuration = 60, unload = 40\<rparr>
      | D42K \<Rightarrow> \<lparr>base = 75, maxDuration = 75, unload = 50\<rparr>)"

definition LONG_RUN_DURATIONS :: "Distance \<Rightarrow> DurationConfig" where
  "LONG_RUN_DURATIONS d =
     (case d of
        D5K \<Rightarrow> \<lparr>base = 70, maxDuration = 70, unload = 45\<rparr>
      | D10K \<Rightarrow> \<lparr>base = 85, maxDuration = 85, unload = 55\<rparr>
      | D21K \<Rightarrow> \<lparr>base = 105, maxDuration = 105, unload = 70\<rparr>
      | D42K \<Rightarrow> \<lparr>base = 130, maxDuration = 130, unload = 90\<rparr>)"

record RepsConfig =
  shortReps :: nat
  mediumReps :: nat
  longReps :: nat

definition INTERVAL_REPS_BY_DISTANCE :: "Distance \<Rightarrow> RepsConfig list" where
  "INTERVAL_REPS_BY_DISTANCE d =
     (case d of
        D5K \<Rightarrow> replicate 5 \<lparr>shortReps = 10, mediumReps = 5, longReps = 3\<rparr>
                 @ [\<lparr>shortReps = 6, mediumReps = 3, longReps = 2\<rparr>]
      | D10K \<Rightarrow> replicate 5 \<lparr>shortReps = 12, mediumReps = 6, longReps = 3\<rparr>
                 @ [\<lparr>shortReps = 8, mediumReps = 4, longReps = 2\<rparr>]
      | D21K \<Rightarrow> replicate 5 \<lparr>shortReps = 12, mediumReps = 6, longReps = 4\<rparr>
                 @ [\<lparr>shortReps = 8, mediumReps = 4, longReps = 3\<rparr>]
      | D42K \<Rightarrow> replicate 5 \<lparr>shortReps = 14, mediumReps = 8, longReps = 5\<rparr>
                 @ [\<lparr>shortReps = 8, mediumReps = 5, longReps = 3\<rparr>])"

record SessionConfig =
  cfgType :: SessionType
  cfgIntervalType :: "IntervalType option"

definition BASE_WEEK_STRUCTURE :: "SessionConfig list" where
  "BASE_WEEK_STRUCTURE =
     [\<lparr>cfgType = Easy, cfgIntervalType = None\<rparr>,
      \<lparr>cfgType = Threshold, cfgIntervalType = Some Short\<rparr>,
      \<lparr>cfgType = Easy, cfgIntervalType = None\<rparr>,
      \<lparr>cfgType = Threshold, cfgIntervalType = Some Medium\<rparr>,
      \<lparr>cfgType = Easy, cfgIntervalType = None\<rparr>,
      \<lparr>cfgType = Threshold, cfgIntervalType = Some LongInterval\<rparr>,
      \<lparr>cfgType = Long, cfgIntervalType = None\<rparr>]"

definition removalPriority :: "nat list" where
  "removalPriority = [4, 0, 2, 5, 3]"

definition getWeekStructure :: "real \<Rightarrow> SessionConfig list" where
  "getWeekStructure days =
     (let structure = BASE_WEEK_STRUCTURE;
          targetDays = max 3 (min 7 (Math_floor days))
      in if targetDays = 7 then structure
         else
           let daysToRemove = 7 - targetDays;
               toRemove = take (nat daysToRemove) removalPriority
           in fold (\<lambda>index st.
                      if index < length st then st[index := \<lparr>cfgType = Rest, cfgIntervalType = None\<rparr>]
                      else st)
                toRemove structure)"

definition getEasyDuration :: "int \<Rightarrow> Distance \<Rightarrow> int \<Rightarrow> nat" where
  "getEasyDuration week targetDist dayNo =
     (let config = EASY_RUN_DURATIONS targetDist in if week = 6 then unload config else base config)"

definition getLongDuration :: "int \<Rightarrow> Distance \<Rightarrow> nat" where
  "getLongDuration week targetDist =
     (let config = LONG_RUN_DURATIONS targetDist in if week = 6 then unload config else base config)"

text \<open>An index outside the table reads \<^verbatim>\<open>undefined\<close>, and the first row is taken.\<close>

definition getIntervalReps :: "int \<Rightarrow> IntervalType \<Rightarrow> Distance \<Rightarrow> nat" where
  "getIntervalReps week itype targetDist =
     (let distanceConfig = INTERVAL_REPS_BY_DISTANCE targetDist;
          weekConfig = (if 0 \<le> week - 1 \<and> week - 1 < int (length distanceConfig)
                        then distanceConfig ! nat (week - 1) else distanceConfig ! 0)
      in case itype of Short \<Rightarrow> shortReps weekConfig
                     | Medium \<Rightarrow> mediumReps weekConfig
                     | LongInterval \<Rightarrow> longReps weekConfig)"

definition intervalPace :: "IntervalPaces \<Rightarrow> IntervalType \<Rightarrow> real MinMax" where
  "intervalPace ip i = (case i of Short \<Rightarrow> short ip | Medium \<Rightarrow> medium ip | LongInterval \<Rightarrow> long ip)"

definition createSession ::
  "int \<Rightarrow> SessionConfig \<Rightarrow> Paces \<Rightarrow> int \<Rightarrow> Distance \<Rightarrow> bool \<Rightarrow> Unit \<Rightarrow> TrainingSession" where
  "createSession dayNo sessionConfig p week targetDist testWeek u =
     (let unitLabel = (if u = Km then ''km'' else ''mi'');
          baseSession = \<lparr>day = dayNo, sessionType = cfgType sessionConfig, title = [],
                          description = [], duration = None, sessionIntervals = None,
                          sessionPaces = None, race = None\<rparr>
      in case cfgType sessionConfig of
           Easy \<Rightarrow>
             (let dur = getEasyDuration week targetDist dayNo
              in baseSession\<lparr>title := ''Easy Run'',
                   description := showNat dur @ '' min @ easy pace'',
                   duration := Some dur,
                   sessionPaces := Some \<lparr>target = easy p, targetRange = None\<rparr>\<rparr>)
         | Threshold \<Rightarrow>
             (let interval = (case cfgIntervalType sessionConfig of None \<Rightarrow> Short | Some i \<Rightarrow> i);
                  nsConfig = NS_INTERVALS_byTime interval;
                  pr = intervalPace (intervals p) interval;
                  n = getIntervalReps week interval targetDist;
                  intervalName = (if interval = Short then ''Short''
                                  else if interval = Medium then ''Medium'' else ''Long'')
              in baseSession\<lparr>title := ''NS '' @ intervalName @ '' Sub-T'',
                   description := showNat n @ '' '' @ [CHR 0xC3, CHR 0x97] @ '' '' @ nsDuration nsConfig
                       @ '' @ '' @ formatPace (minimum pr) u @ ''-'' @ formatPace (maximum pr) u
                       @ ''/'' @ unitLabel @ '' (60s rec)'',
                   sessionIntervals := Some \<lparr>intervalType = interval,
                       reps = \<lparr>minimum = n, maximum = n\<rparr>,
                       durationLabel = nsDuration nsConfig,
                       paceRange = pr,
                       recovery = nsRecovery nsConfig\<rparr>,
                   sessionPaces := Some \<lparr>target = of_int (Math_round ((minimum pr + maximum pr) / 2)),
                       targetRange = Some pr\<rparr>\<rparr>)
         | Long \<Rightarrow>
             (let dur = getLongDuration week targetDist
              in baseSession\<lparr>title := ''Long Run'',
                   description := showNat dur @ '' min @ easy pace'',
                   duration := Some dur,
                   sessionPaces := Some \<lparr>target = easy p, targetRange = None\<rparr>\<rparr>)
         | Test \<Rightarrow>
             baseSession\<lparr>title := ''Test Day'',
               description := ''Time trial 5K or 10K - max effort''\<rparr>
         | RaceDay \<Rightarrow>
             baseSession\<lparr>title := ''Race Day'',
               description := (case race baseSession of None \<Rightarrow> ''Race'' | Some r \<Rightarrow>
                                 if raceName r = [] then ''Race'' else raceName r),
               race := race baseSession\<rparr>
         | Rest \<Rightarrow>
             baseSession\<lparr>title := ''Rest'',
               description := ''Active recovery or complete rest''\<rparr>)"

definition calculateWeekVolume :: "int \<Rightarrow> TrainingSession list \<Rightarrow> int" where
  "calculateWeekVolume week ss =
     (let totalMinutes =
        fold (\<lambda>s totalM.
                if sessionType s = Easy \<or> sessionType s = Long then
                  totalM + (case duration s of None \<Rightarrow> 0 | Some d \<Rightarrow> real d)
                else if sessionType s = Threshold \<and> sessionIntervals s \<noteq> None then
                  (let iv = the (sessionIntervals s);
                       workMinutes = real (minimum (reps iv))
                         * (if intervalType iv = Short then 3.5
                            else if intervalType iv = Medium then 7 else 11)
                   in totalM + 15 + workMinutes + 10)
                else totalM)
             ss (0 :: real)
      in Math_round (totalMinutes / 5.5))"

definition generateWeekPlan :: "int \<Rightarrow> real \<Rightarrow> Paces \<Rightarrow> Distance \<Rightarrow> Unit \<Rightarrow> WeekPlan" where
  "generateWeekPlan week days p targetDist u =
     (let testWeek = (week = 6);
          structure = getWeekStructure days;
          ss = map (\<lambda>(index, config).
                      if testWeek \<and> index = 5 then
                        createSession (int index + 1) \<lparr>cfgType = Test, cfgIntervalType = None\<rparr>
                          p week targetDist True u
                      else createSession (int index + 1) config p week targetDist testWeek u)
                 (enumerate 0 structure);
          volume = calculateWeekVolume week ss
      in \<lparr>weekNumber = week, isTestWeek = testWeek, isRecoveryWeek = testWeek,
          sessions = ss, totalVolume = Some volume\<rparr>)"

text \<open>The parameter \<^verbatim>\<open>unit\<close> of \<^verbatim>\<open>generateWeekPlan\<close> defaults to kilometres.\<close>

definition generateTrainingBlock :: "int \<Rightarrow> UserInput \<Rightarrow> real \<Rightarrow> Paces \<Rightarrow> TrainingBlock" where
  "generateTrainingBlock blockNo input v p =
     \<lparr>blockNumber = blockNo,
      weeks = map (\<lambda>week. generateWeekPlan week (trainingDays input) p (targetDistance input)
                             (case unit input of None \<Rightarrow> Km | Some u \<Rightarrow> u))
                [1, 2, 3, 4, 5, 6],
      startDate = None, endDate = None, vdot = v, paces = p\<rparr>"

text \<open>
  Failures of the program: \<open>Error msg\<close> is \<^verbatim>\<open>throw new Error(msg)\<close>, \<open>TypeError\<close> is the
  exception of reading a property of \<^verbatim>\<open>undefined\<close>.
\<close>

datatype error = Error string | TypeError

definition raceSession :: "Race \<Rightarrow> int \<Rightarrow> TrainingSession" where
  "raceSession r raceDay =
     \<lparr>day = raceDay, sessionType = RaceDay,
      title = ''Race Day: '' @ raceName r,
      description = distanceName (raceDistance r) @ '' race - ''
          @ (if raceType r = TypeA then ''Priority'' else ''Tune-up''),
      duration = None, sessionIntervals = None, sessionPaces = None, race = Some r\<rparr>"

text \<open>The body of the inner taper loop, on the session it reads.\<close>

definition taperSession :: "TrainingSession \<Rightarrow> TrainingSession" where
  "taperSession s =
     (if sessionType s = Threshold then
        s\<lparr>title := ''NS Intervals (Taper)'',
          description := ''Reduced volume - maintain intensity''\<rparr>
      else if sessionType s = Long then
        s\<lparr>sessionType := Easy, title := ''Easy Run (Taper)'',
          description := ''40 min @ easy pace'', duration := Some 40\<rparr>
      else s)"

text \<open>
  The inner loop \<^verbatim>\<open>while (currentDay >= 0 && daysToTaper > 0)\<close> on the copied sessions
  of the race week; it returns the three variables it has changed.
\<close>

fun taperInner :: "nat \<Rightarrow> int \<Rightarrow> TrainingSession list \<Rightarrow> error + (nat \<times> int \<times> TrainingSession list)" where
  "taperInner 0 currentDay ss = Inr (0, currentDay, ss)"
| "taperInner (Suc n) currentDay ss =
     (if currentDay \<ge> 0 then
        (if nat currentDay < length ss then
           taperInner n (currentDay - 1) (ss[nat currentDay := taperSession (ss ! nat currentDay)])
         else Inl TypeError)
      else Inr (Suc n, currentDay, ss))"

text \<open>
  The outer loop \<^verbatim>\<open>while (daysToTaper > 0 && currentWeek >= 0)\<close>. It need not leave:
  \<open>None\<close> is the run that does not return.
\<close>

partial_function (option) taperOuter ::
  "nat \<Rightarrow> int \<Rightarrow> int \<Rightarrow> TrainingSession list \<Rightarrow> (error + TrainingSession list) option" where
  "taperOuter daysToTaper currentWeek currentDay ss =
     (if daysToTaper > 0 \<and> currentWeek \<ge> 0 then
        (case taperInner daysToTaper currentDay ss of
           Inl e \<Rightarrow> Some (Inl e)
         | Inr r \<Rightarrow>
             if fst r > 0 \<and> currentWeek > 0
             then taperOuter (fst r) (currentWeek - 1) 6 (snd (snd r))
             else taperOuter (fst r) currentWeek (fst (snd r)) (snd (snd r)))
      else Some (Inr ss))"

definition applyRaceTapering ::
  "TrainingBlock \<Rightarrow> Race \<Rightarrow> int \<Rightarrow> int \<Rightarrow> (error + TrainingBlock) option" where
  "applyRaceTapering block r raceWeek raceDay =
     (let taperDays = (if raceType r = TypeA then 7 else 3);
          weekIndex = raceWeek - 1
      in if weekIndex < 0 \<or> weekIndex \<ge> int (length (weeks block)) then Some (Inr block)
         else
           let week = weeks block ! nat weekIndex;
               dayIndex = raceDay - 1;
               ss = (if dayIndex \<ge> 0 \<and> dayIndex < int (length (sessions week))
                     then (sessions week)[nat dayIndex := raceSession r raceDay]
                     else sessions week)
           in case taperOuter taperDays weekIndex (dayIndex - 1) ss of
                None \<Rightarrow> None
              | Some (Inl e) \<Rightarrow> Some (Inl e)
              | Some (Inr ss') \<Rightarrow>
                  Some (Inr (block\<lparr>weeks := (weeks block)[nat weekIndex := week\<lparr>sessions := ss'\<rparr>]\<rparr>)))"

definition parseTimeString :: "string \<Rightarrow> real option" where
  "parseTimeString timeStr =
     (let parts = map Number (split_colon timeStr) in
      if list_ex (\<lambda>p. p = None) parts then None
      else case map the parts of
             [a, b] \<Rightarrow> Some (a * 60 + b)
           | [a, b, c] \<Rightarrow> Some (a * 3600 + b * 60 + c)
           | _ \<Rightarrow> None)"

text \<open>Truthiness of an optional string and of a number or \<^verbatim>\<open>null\<close>.\<close>

definition truthyString :: "string option \<Rightarrow> bool" where
  "truthyString s = (case s of None \<Rightarrow> False | Some t \<Rightarrow> t \<noteq> [])"

definition truthyNumber :: "real option \<Rightarrow> bool" where
  "truthyNumber x = (case x of None \<Rightarrow> False | Some r \<Rightarrow> r \<noteq> 0)"

definition createTrainingPlan :: "(real \<Rightarrow> real \<Rightarrow> bool) \<Rightarrow> UserInput \<Rightarrow> error + TrainingBlock" where
  "createTrainingPlan withinTolerance input =
     (case (if truthyString (time10K input) then
              (let parsed = parseTimeString (the (time10K input))
               in if truthyNumber parsed
                  then Inr (calculateVDOT (DISTANCE_METERS D10K) (the parsed))
                  else Inl (Error ''Invalid 10K time format''))
            else if truthyString (time5K input) then
              (let parsed = parseTimeString (the (time5K input))
               in if truthyNumber parsed
                  then Inr (calculateVDOT (DISTANCE_METERS D5K) (the parsed))
                  else Inl (Error ''Invalid 5K time format''))
            else Inl (Error ''At least one race time is required'')) of
        Inl e \<Rightarrow> Inl e
      | Inr v \<Rightarrow>
          (let p = calculatePaces withinTolerance v;
               block = generateTrainingBlock 1 input v p
           in Inr block))"

text \<open>A set of paces for the examples below.\<close>

definition examplePaces :: Paces where
  "examplePaces = \<lparr>threshold = 230, easy = 318,
     intervals = \<lparr>short = \<lparr>minimum = 227, maximum = 234\<rparr>,
                  medium = \<lparr>minimum = 232, maximum = 239\<rparr>,
                  long = \<lparr>minimum = 238, maximum = 246\<rparr>\<rparr>\<rparr>"

text \<open>An input, the block generated for it, and two races, for the examples below.\<close>

definition exampleInput :: UserInput where
  "exampleInput = \<lparr>targetDistance = D10K, time5K = None, time10K = Some ''37:00'',
     trainingDays = 7, races = [], unit = Some Km\<rparr>"

definition exampleBlock :: TrainingBlock where
  "exampleBlock = generateTrainingBlock 1 exampleInput 56.9 examplePaces"

definition exampleRace :: Race where
  "exampleRace = \<lparr>raceId = ''r1'', raceName = ''City 10K'', raceDate = ''2025-06-01'',
     raceType = TypeA, raceDistance = D10K\<rparr>"

definition exampleRaceB :: Race where
  "exampleRaceB = \<lparr>raceId = ''r2'', raceName = ''Park 5K'', raceDate = ''2025-05-10'',
     raceType = TypeB, raceDistance = D5K\<rparr>"

section \<open>The VDOT as a rounded quotient\<close>


section \<open>The week structure\<close>

lemma getWeekStructure_explicit:
  fixes days :: real
  defines "t \<equiv> max 3 (min 7 (Math_floor days))"
  shows "getWeekStructure days =
     (if t = 7 then BASE_WEEK_STRUCTURE
      else fold (\<lambda>index st. st[index := \<lparr>cfgType = Rest, cfgIntervalType = None\<rparr>])
             (take (nat (7 - t)) removalPriority) BASE_WEEK_STRUCTURE)"
proof -
  have t: "t = 3 \<or> t = 4 \<or> t = 5 \<or> t = 6 \<or> t = 7"
    unfolding t_def by linarith
  then show ?thesis
    unfolding getWeekStructure_def t_def [symmetric] Let_def
    by (elim disjE) (simp_all add: removalPriority_def BASE_WEEK_STRUCTURE_def)
qed

lemma all_less_7: "(\<forall>i<7. P i) = (P 0 \<and> P 1 \<and> P 2 \<and> P 3 \<and> P 4 \<and> P 5 \<and> P (6::nat))"
proof
  assume "\<forall>i<7. P i"
  then show "P 0 \<and> P 1 \<and> P 2 \<and> P 3 \<and> P 4 \<and> P 5 \<and> P 6" by simp
next
  assume c: "P 0 \<and> P 1 \<and> P 2 \<and> P 3 \<and> P 4 \<and> P 5 \<and> P 6"
  show "\<forall>i<7. P i"
  proof (intro allI impI)
    fix i :: nat
    assume "i < 7"
    then have "i = 0 \<or> i = 1 \<or> i = 2 \<or> i = 3 \<or> i = 4 \<or> i = 5 \<or> i = 6" by arith
    with c show "P i" by auto
  qed
qed

text \<open>
  C3: whatever number of training days is asked for, it is clamped to 3..7 and the week
  keeps its seven entries; exactly 7 minus that number of days are turned into rest
  days, and they are the first entries of the priority list Friday, Monday, Wednesday,
  Saturday, Thursday; every other day keeps its template entry, Tuesday (short
  threshold) and Sunday (long run) always do, and with seven days the template is
  returned as it is.
\<close>

theorem getWeekStructure_rest_days:
  fixes days :: real
  defines "k \<equiv> nat (7 - max 3 (min 7 (Math_floor days)))"
  defines "ws \<equiv> getWeekStructure days"
  shows "length ws = 7
    \<and> {i. i < 7 \<and> cfgType (ws ! i) = Rest} = set (take k removalPriority)
    \<and> card {i. i < 7 \<and> cfgType (ws ! i) = Rest} = k
    \<and> k = 7 - nat (max 3 (min 7 (Math_floor days)))
    \<and> (\<forall>i<7. i \<notin> set (take k removalPriority) \<longrightarrow> ws ! i = BASE_WEEK_STRUCTURE ! i)
    \<and> ws ! 1 = \<lparr>cfgType = Threshold, cfgIntervalType = Some Short\<rparr>
    \<and> ws ! 6 = \<lparr>cfgType = Long, cfgIntervalType = None\<rparr>
    \<and> (k = 0 \<longrightarrow> ws = BASE_WEEK_STRUCTURE)"
proof -
  define t where "t = max 3 (min 7 (Math_floor days))"
  have t: "t = 3 \<or> t = 4 \<or> t = 5 \<or> t = 6 \<or> t = 7"
    unfolding t_def by linarith
  have k: "k = nat (7 - t)" by (simp add: k_def t_def)
  have ws: "ws = (if t = 7 then BASE_WEEK_STRUCTURE
      else fold (\<lambda>index st. st[index := \<lparr>cfgType = Rest, cfgIntervalType = None\<rparr>])
             (take (nat (7 - t)) removalPriority) BASE_WEEK_STRUCTURE)"
    unfolding ws_def t_def by (rule getWeekStructure_explicit)
  have rest: "\<forall>i<7. (cfgType (ws ! i) = Rest) = (i \<in> set (take k removalPriority))"
    using t unfolding all_less_7 ws k
    by (elim disjE) (simp_all add: removalPriority_def BASE_WEEK_STRUCTURE_def)
  have sub: "set (take k removalPriority) \<subseteq> {i. i < 7}"
    using set_take_subset [of k removalPriority] by (auto simp: removalPriority_def)
  have set_eq: "{i. i < 7 \<and> cfgType (ws ! i) = Rest} = set (take k removalPriority)"
    using rest sub by auto
  have "distinct (take k removalPriority)"
    by (rule distinct_take) (simp add: removalPriority_def)
  then have "card (set (take k removalPriority)) = length (take k removalPriority)"
    by (rule distinct_card)
  also have "\<dots> = k"
    using t by (auto simp: k removalPriority_def)
  finally have card_eq: "card {i. i < 7 \<and> cfgType (ws ! i) = Rest} = k"
    by (simp add: set_eq)
  have len: "length ws = 7"
    using t unfolding ws k
    by (elim disjE) (simp_all add: removalPriority_def BASE_WEEK_STRUCTURE_def)
  have keep: "\<forall>i<7. i \<notin> set (take k removalPriority) \<longrightarrow> ws ! i = BASE_WEEK_STRUCTURE ! i"
    using t unfolding all_less_7 ws k
    by (elim disjE) (simp_all add: removalPriority_def BASE_WEEK_STRUCTURE_def)
  have tue: "ws ! 1 = \<lparr>cfgType = Threshold, cfgIntervalType = Some Short\<rparr>"
    using t unfolding ws
    by (elim disjE) (simp_all add: removalPriority_def BASE_WEEK_STRUCTURE_def)
  have sun: "ws ! 6 = \<lparr>cfgType = Long, cfgIntervalType = None\<rparr>"
    using t unfolding ws
    by (elim disjE) (simp_all add: removalPriority_def BASE_WEEK_STRUCTURE_def)
  have full: "k = 0 \<longrightarrow> ws = BASE_WEEK_STRUCTURE"
    using t unfolding ws k by auto
  have k2: "k = 7 - nat (max 3 (min 7 (Math_floor days)))"
    unfolding k_def by linarith
  from len set_eq card_eq k2 keep tue sun full show ?thesis by blast
qed

theorem getWeekStructure_rest_days_witness:
  "card {i. i < 7 \<and> cfgType (getWeekStructure 3 ! i) = Rest} = 4
   \<and> getWeekStructure 3 ! 3 = BASE_WEEK_STRUCTURE ! 3
   \<and> getWeekStructure 7 = BASE_WEEK_STRUCTURE"
proof -
  have a: "nat (7 - max 3 (min 7 (Math_floor 3))) = 4" by (simp add: Math_floor_def)
  have a7: "nat (7 - max 3 (min 7 (Math_floor 7))) = 0" by (simp add: Math_floor_def)
  have b: "(3::nat) \<notin> set (take 4 removalPriority)" by (simp add: removalPriority_def)
  note t3 = getWeekStructure_rest_days [of 3, unfolded a]
  note t7 = getWeekStructure_rest_days [of 7, unfolded a7]
  from t3 have c1: "card {i. i < 7 \<and> cfgType (getWeekStructure 3 ! i) = Rest} = 4" by blast
  from t3 b have c2: "getWeekStructure 3 ! 3 = BASE_WEEK_STRUCTURE ! 3" by simp
  from t7 have c3: "getWeekStructure 7 = BASE_WEEK_STRUCTURE" by blast
  from c1 c2 c3 show ?thesis by blast
qed

section \<open>The weekly template in a generated block\<close>

lemma createSession_kind:
  "sessionType (createSession dayNo cfg p week targetDist tw u) = cfgType cfg"
  "map_option intervalType (sessionIntervals (createSession dayNo cfg p week targetDist tw u)) =
     (if cfgType cfg = Threshold
      then Some (case cfgIntervalType cfg of None \<Rightarrow> Short | Some i \<Rightarrow> i) else None)"
  "day (createSession dayNo cfg p week targetDist tw u) = dayNo"
  by (cases "cfgType cfg"; simp add: createSession_def Let_def)+

lemma sessions_generateWeekPlan:
  "sessions (generateWeekPlan week days p targetDist u) =
     map (\<lambda>(index, config).
            if week = 6 \<and> index = 5 then
              createSession (int index + 1) \<lparr>cfgType = Test, cfgIntervalType = None\<rparr> p week targetDist True u
            else createSession (int index + 1) config p week targetDist (week = 6) u)
       (enumerate 0 (getWeekStructure days))"
  by (simp add: generateWeekPlan_def Let_def)

lemma weeks_generateTrainingBlock:
  "weeks (generateTrainingBlock n input v p) =
     map (\<lambda>week. generateWeekPlan week (trainingDays input) p (targetDistance input)
                             (case unit input of None \<Rightarrow> Km | Some u \<Rightarrow> u))
                [1, 2, 3, 4, 5, 6]"
  by (simp add: generateTrainingBlock_def)

lemma getWeekStructure_7: "getWeekStructure 7 = BASE_WEEK_STRUCTURE"
  by (simp add: getWeekStructure_def Math_floor_def)

lemma length_fold_update: "length (fold (\<lambda>index st. st[index := x]) js st) = length st"
  by (induction js arbitrary: st) auto

lemma length_getWeekStructure: "length (getWeekStructure days) = 7"
  by (simp add: getWeekStructure_explicit length_fold_update BASE_WEEK_STRUCTURE_def)

text \<open>
  C2: a generated block has six weeks. With seven training days, the sessions of weeks 1
  to 5 are, Monday (day 1) to Sunday (day 7), easy, short threshold, easy, medium
  threshold, easy, long threshold, long run, and week 6 is the same with Saturday
  replaced by the test.
  Whatever the number of training days, week 6 has seven sessions and its Saturday
  session (index 5) is of type test, also where the week structure has a rest day there.
\<close>

theorem canonical_week_template:
  fixes input :: UserInput and n :: int and v :: real and p :: Paces
  defines "b \<equiv> generateTrainingBlock n input v p"
  defines "kind \<equiv> (\<lambda>s. (day s, sessionType s, map_option intervalType (sessionIntervals s)))"
  defines "template \<equiv> [(1, Easy, None), (2, Threshold, Some Short), (3, Easy, None),
      (4, Threshold, Some Medium), (5, Easy, None), (6, Threshold, Some LongInterval),
      (7, Long, None)]"
  shows "length (weeks b) = 6
    \<and> (trainingDays input = 7 \<longrightarrow>
         (\<forall>i<5. map kind (sessions (weeks b ! i)) = template)
         \<and> map kind (sessions (weeks b ! 5)) = template[5 := (6, Test, None)])
    \<and> length (sessions (weeks b ! 5)) = 7
    \<and> sessionType (sessions (weeks b ! 5) ! 5) = Test"
proof -
  have len: "length (weeks b) = 6"
    by (simp add: b_def weeks_generateTrainingBlock)
  have seven: "map kind (sessions (weeks b ! i)) = template" if "trainingDays input = 7" "i < 5" for i
  proof -
    from \<open>i < 5\<close> have "i = 0 \<or> i = 1 \<or> i = 2 \<or> i = 3 \<or> i = 4" by arith
    then show ?thesis
      using that(1)
      by (elim disjE)
         (simp_all add: b_def weeks_generateTrainingBlock sessions_generateWeekPlan
            getWeekStructure_7 BASE_WEEK_STRUCTURE_def kind_def template_def createSession_kind)
  qed
  have six: "map kind (sessions (weeks b ! 5)) = template[5 := (6, Test, None)]"
    if "trainingDays input = 7"
    using that
    by (simp add: b_def weeks_generateTrainingBlock sessions_generateWeekPlan
            getWeekStructure_7 BASE_WEEK_STRUCTURE_def kind_def template_def createSession_kind)
  obtain c0 c1 c2 c3 c4 c5 c6 where ws: "getWeekStructure (trainingDays input) = [c0, c1, c2, c3, c4, c5, c6]"
    using length_getWeekStructure [of "trainingDays input"]
    by (auto simp: length_Suc_conv eval_nat_numeral)
  have sat: "length (sessions (weeks b ! 5)) = 7 \<and> sessionType (sessions (weeks b ! 5) ! 5) = Test"
    by (simp add: b_def weeks_generateTrainingBlock sessions_generateWeekPlan ws createSession_kind)
  from len seven six sat show ?thesis by blast
qed

theorem canonical_week_template_witness:
  "map (\<lambda>s. (day s, sessionType s, map_option intervalType (sessionIntervals s)))
     (sessions (weeks (generateTrainingBlock 1
        \<lparr>targetDistance = D10K, time5K = None, time10K = Some ''37:00'', trainingDays = 7,
         races = [], unit = Some Km\<rparr> 56.9 examplePaces) ! 0))
   = [(1, Easy, None), (2, Threshold, Some Short), (3, Easy, None),
      (4, Threshold, Some Medium), (5, Easy, None), (6, Threshold, Some LongInterval),
      (7, Long, None)]
   \<and> cfgType (getWeekStructure 3 ! 5) = Rest
   \<and> sessionType (sessions (weeks (generateTrainingBlock 1
        \<lparr>targetDistance = D10K, time5K = None, time10K = Some ''37:00'', trainingDays = 3,
         races = [], unit = Some Km\<rparr> 56.9 examplePaces) ! 5) ! 5) = Test"
proof -
  let ?i7 = "\<lparr>targetDistance = D10K, time5K = None, time10K = Some ''37:00'', trainingDays = 7,
         races = [], unit = Some Km\<rparr>"
  let ?i3 = "\<lparr>targetDistance = D10K, time5K = None, time10K = Some ''37:00'', trainingDays = 3,
         races = [], unit = Some Km\<rparr>"
  have h: "trainingDays ?i7 = 7" by simp
  have z: "(0::nat) < 5" by simp
  from canonical_week_template [of 1 ?i7 "56.9" examplePaces] h z
  have a: "map (\<lambda>s. (day s, sessionType s, map_option intervalType (sessionIntervals s)))
     (sessions (weeks (generateTrainingBlock 1 ?i7 56.9 examplePaces) ! 0))
   = [(1, Easy, None), (2, Threshold, Some Short), (3, Easy, None),
      (4, Threshold, Some Medium), (5, Easy, None), (6, Threshold, Some LongInterval),
      (7, Long, None)]"
    by blast
  have r: "cfgType (getWeekStructure 3 ! 5) = Rest"
    by (simp add: getWeekStructure_def BASE_WEEK_STRUCTURE_def removalPriority_def Math_floor_def)
  from canonical_week_template [of 1 ?i3 "56.9" examplePaces]
  have c: "sessionType (sessions (weeks (generateTrainingBlock 1 ?i3 56.9 examplePaces) ! 5) ! 5) = Test"
    by blast
  from a r c show ?thesis by blast
qed


section \<open>The binary search\<close>

lemma floor_half: "Math_floor (real_of_int k / 2) = k div 2"
  using floor_divide_of_int_eq [where ?'a = real, of k 2] by (simp add: Math_floor_def)

lemma floor_half_sum: "Math_floor ((real_of_int a + real_of_int b) / 2) = (a + b) div 2"
  using floor_half [of "a + b"] by simp

lemma round_half_sum: "Math_round ((real_of_int a + real_of_int b) / 2) = (a + b + 1) div 2"
proof -
  have "(real_of_int a + real_of_int b) / 2 + 1 / 2 = real_of_int (a + b + 1) / real_of_int 2"
    by (simp add: field_simps)
  then show ?thesis
    unfolding Math_round_def
    using floor_divide_of_int_eq [where ?'a = real, of "a + b + 1" 2] by presburger
qed

lemma mid_bounds:
  fixes low high :: int
  shows "1 < high - low \<Longrightarrow> low < (low + high) div 2 \<and> (low + high) div 2 < high"
  by presburger

lemma searchTime_unfold:
  "searchTime wt v d low high =
     (if high - low > 1 then
        (if wt (calculateVDOT d (of_int ((low + high) div 2))) v then (low + high) div 2
         else if calculateVDOT d (of_int ((low + high) div 2)) > v
              then searchTime wt v d ((low + high) div 2) high
              else searchTime wt v d low ((low + high) div 2))
      else (low + high + 1) div 2)"
  by (subst searchTime.simps) (simp add: floor_half_sum round_half_sum Let_def)

lemma searchTimeFuel_unfold:
  "searchTimeFuel n wt v d low high =
     (if high - low > 1 then
        (case n of
           0 \<Rightarrow> None
         | Suc k \<Rightarrow>
             if wt (calculateVDOT d (of_int ((low + high) div 2))) v
             then Some ((low + high) div 2)
             else if calculateVDOT d (of_int ((low + high) div 2)) > v
                  then searchTimeFuel k wt v d ((low + high) div 2) high
                  else searchTimeFuel k wt v d low ((low + high) div 2))
      else Some ((low + high + 1) div 2))"
  by (subst searchTimeFuel.simps) (simp add: floor_half_sum round_half_sum Let_def split: nat.split)

lemma searchTimeFuel_enough:
  "high - low \<le> 2 ^ n \<Longrightarrow> searchTimeFuel n wt v d low high = Some (searchTime wt v d low high)"
proof (induction n arbitrary: low high)
  case 0
  then show ?case
    by (subst searchTimeFuel_unfold, subst searchTime_unfold) simp
next
  case (Suc n)
  have w1: "high - (low + high) div 2 \<le> 2 ^ n" using Suc.prems by simp
  have w2: "(low + high) div 2 - low \<le> 2 ^ n" using Suc.prems by simp
  show ?case
    using Suc.IH [OF w1] Suc.IH [OF w2]
    by (subst searchTimeFuel_unfold, subst searchTime_unfold) simp
qed

lemma searchTime_range:
  "low \<le> high \<Longrightarrow> low \<le> searchTime wt v d low high \<and> searchTime wt v d low high \<le> high"
proof (induction "nat (high - low)" arbitrary: low high rule: less_induct)
  case less
  show ?case
  proof (cases "high - low > 1")
    case True
    let ?mid = "(low + high) div 2"
    from mid_bounds [OF True] have lm: "low < ?mid" "?mid < high" by simp_all
    have up: "?mid \<le> searchTime wt v d ?mid high \<and> searchTime wt v d ?mid high \<le> high"
      using lm by (intro less.hyps) simp_all
    have dn: "low \<le> searchTime wt v d low ?mid \<and> searchTime wt v d low ?mid \<le> ?mid"
      using lm by (intro less.hyps) simp_all
    from up dn lm True show ?thesis
      by (subst (1 2) searchTime_unfold) simp
  next
    case False
    with less.prems have "low \<le> (low + high + 1) div 2 \<and> (low + high + 1) div 2 \<le> high"
      by presburger
    with False show ?thesis
      by (subst (1 2) searchTime_unfold) simp
  qed
qed

text \<open>
  C9: the binary search of calculateTimeFromVDOT over 60 s .. 21600 s leaves after at
  most 15 iterations, for every target and every distance: with a budget of 15 or more
  iterations the loop returns the value of calculateTimeFromVDOT. Each iteration with
  a bracket wider than 1 replaces it by a strictly narrower, non-empty one.
\<close>

theorem calculateTimeFromVDOT_terminates:
  "(\<forall>n\<ge>15. searchTimeFuel n wt v d (1 * 60) (6 * 3600) = Some (calculateTimeFromVDOT wt v d))
   \<and> (\<forall>low high. high - low > 1 \<longrightarrow>
         (let mid = Math_floor (of_int (low + high) / 2)
          in 0 < high - mid \<and> high - mid < high - low \<and> 0 < mid - low \<and> mid - low < high - low))"
proof -
  have "searchTimeFuel n wt v d (1 * 60) (6 * 3600) = Some (calculateTimeFromVDOT wt v d)" if "15 \<le> n" for n
  proof -
    have "(2::int) ^ 15 \<le> 2 ^ n" using that by (rule power_increasing) simp
    then have "(6 * 3600 :: int) - 1 * 60 \<le> 2 ^ n" by simp
    then show ?thesis
      unfolding calculateTimeFromVDOT_def by (rule searchTimeFuel_enough)
  qed
  moreover have "0 < high - mid \<and> high - mid < high - low \<and> 0 < mid - low \<and> mid - low < high - low"
    if "high - low > 1" "mid = Math_floor (of_int (low + high) / 2)" for low high mid :: int
    using mid_bounds [OF that(1)] that(2) by (simp add: floor_half_sum)
  ultimately show ?thesis by (simp add: Let_def)
qed

theorem calculateTimeFromVDOT_terminates_witness:
  "searchTimeFuel 17 exactTest 50 5000 (1 * 60) (6 * 3600) = Some (calculateTimeFromVDOT exactTest 50 5000)
   \<and> Math_floor (of_int (60 + 21600) / 2) = 10830
   \<and> 21600 - (10830::int) < 21600 - 60 \<and> (10830::int) - 60 < 21600 - 60"
proof -
  have a: "(15::nat) \<le> 17" by simp
  have b: "(21600::int) - 60 > 1" by simp
  have c: "Math_floor (of_int (60 + 21600) / 2) = 10830" by (simp add: Math_floor_def)
  from calculateTimeFromVDOT_terminates [of exactTest 50 5000] a
  have "searchTimeFuel 17 exactTest 50 5000 (1 * 60) (6 * 3600) = Some (calculateTimeFromVDOT exactTest 50 5000)"
    by blast
  moreover from calculateTimeFromVDOT_terminates [of exactTest 50 5000] b
  have "let mid = Math_floor (of_int (60 + 21600) / 2)
        in 0 < 21600 - mid \<and> 21600 - mid < 21600 - 60 \<and> 0 < mid - 60 \<and> mid - 60 < (21600::int) - 60"
    by blast
  ultimately show ?thesis using c by (simp add: Let_def)
qed

section \<open>Paces\<close>

lemma calculateTimeFromVDOT_range:
  "60 \<le> calculateTimeFromVDOT wt v d \<and> calculateTimeFromVDOT wt v d \<le> 21600"
  using searchTime_range [of "1 * 60" "6 * 3600" wt v d] by (simp add: calculateTimeFromVDOT_def)

text \<open>
  C7: for every vdot, the threshold pace returned by calculatePaces is strictly smaller
  than the easy pace.
\<close>

theorem calculatePaces_threshold_less_easy:
  "threshold (calculatePaces wt v) < easy (calculatePaces wt v)"
proof -
  define T where "T = calculateThresholdPace wt v"
  have "60 \<le> calculateTimeFromVDOT wt (v * 0.88 + 5) 15000"
    using calculateTimeFromVDOT_range by blast
  then have T4: "4 \<le> T"
    by (simp add: T_def calculateThresholdPace_def Let_def)
  then have "T + 1 \<le> calculateEasyPaceFromThreshold T"
    by (simp add: calculateEasyPaceFromThreshold_def)
  then have "\<lfloor>T + 1 / 2\<rfloor> + 1 \<le> \<lfloor>calculateEasyPaceFromThreshold T + 1 / 2\<rfloor>"
    by linarith
  then have "Math_round T < Math_round (calculateEasyPaceFromThreshold T)"
    by (simp add: Math_round_def)
  then show ?thesis
    by (simp add: calculatePaces_def Let_def T_def)
qed


section \<open>Parsing of times\<close>

lemmas Number_eval = Number_def trim_def isWhiteSpace_def parseDecimal_def parseUnsignedDecimal_def
  splitFirst_def parseMantissa_def parseExponent_def parseDigits_def digitVal_def

text \<open>
  The parts of an accepted string need not be integers: "1.5:30" is accepted, with one
  and a half minutes.
\<close>

theorem parseTime_accepts_fraction:
  "parseTime ''1.5:30'' = Some \<lparr>hours = 0, minutes = 3 / 2, seconds = 30, totalSeconds = 120\<rparr>
   \<and> (3 / 2 :: real) \<notin> \<int>"
proof -
  have "\<lfloor>3 / 2 :: real\<rfloor> = 1" by simp
  then have "of_int \<lfloor>3 / 2 :: real\<rfloor> \<noteq> (3 / 2 :: real)" by simp
  then have "(3 / 2 :: real) \<notin> \<int>" by (metis Ints_cases of_int_floor_cancel)
  moreover have "parseTime ''1.5:30'' = Some \<lparr>hours = 0, minutes = 3 / 2, seconds = 30, totalSeconds = 120\<rparr>"
    by (simp add: parseTime_def Number_eval)
  ultimately show ?thesis by simp
qed

text \<open>
  C8: parseTime never fails otherwise than by returning null, and it returns null
  exactly when the string is empty, or some colon-separated part is not a number for
  the conversion Number, or there are neither 2 nor 3 parts, or the minutes or the
  seconds are 60 or more, or a part is negative. A result has the hours (0 for two
  parts), minutes and seconds of the parts, and its total is
  hours * 3600 + minutes * 60 + seconds.
\<close>

theorem parseTime_null_iff:
  fixes s :: string
  defines "parts \<equiv> split_colon s"
  defines "nums \<equiv> map (\<lambda>p. the (Number p)) parts"
  defines "h \<equiv> (if length parts = 3 then nums ! 0 else 0)"
  defines "m \<equiv> nums ! (length parts - 2)"
  defines "sec \<equiv> nums ! (length parts - 1)"
  shows "(parseTime s = None \<longleftrightarrow>
            s = [] \<or> (\<exists>p\<in>set parts. Number p = None)
            \<or> (length parts \<noteq> 2 \<and> length parts \<noteq> 3)
            \<or> m \<ge> 60 \<or> sec \<ge> 60 \<or> m < 0 \<or> sec < 0 \<or> h < 0)
       \<and> (\<forall>r. parseTime s = Some r \<longrightarrow>
             hours r = h \<and> minutes r = m \<and> seconds r = sec
             \<and> totalSeconds r = hours r * 3600 + minutes r * 60 + seconds r)"
proof (cases "s = [] \<or> (\<exists>p\<in>set parts. Number p = None)")
  case True
  have "parseTime s = None"
  proof (cases "s = []")
    case True
    then show ?thesis by (simp add: parseTime_def)
  next
    case False
    with \<open>s = [] \<or> (\<exists>p\<in>set parts. Number p = None)\<close>
    have "list_ex (\<lambda>p. p = None) (map Number parts)"
      unfolding list_ex_iff by (metis image_eqI set_map)
    then show ?thesis
      by (simp add: parseTime_def parts_def [symmetric] Let_def)
  qed
  with True show ?thesis by auto
next
  case False
  then have ne: "s \<noteq> []" and ok: "\<not> list_ex (\<lambda>p. p = None) (map Number parts)"
    by (auto simp: list_ex_iff)
  have mp: "map the (map Number parts) = nums" by (simp add: nums_def)
  consider (two) a b where "parts = [a, b]" | (three) a b c where "parts = [a, b, c]"
    | (other) "length parts \<noteq> 2" "length parts \<noteq> 3"
    by (cases parts; cases "tl parts"; cases "tl (tl parts)"; cases "tl (tl (tl parts))") auto
  then show ?thesis
  proof cases
    case two
    then show ?thesis
      using ne ok False mp
      by (auto simp: parseTime_def parts_def [symmetric] Let_def nums_def h_def m_def sec_def)
  next
    case three
    then show ?thesis
      using ne ok False mp
      by (auto simp: parseTime_def parts_def [symmetric] Let_def nums_def h_def m_def sec_def)
  next
    case other
    then have "length nums \<noteq> 2" "length nums \<noteq> 3" by (simp_all add: nums_def)
    then have "(case nums of [m, s] \<Rightarrow> Some (0, m, s) | [h, m, s] \<Rightarrow> Some (h, m, s) | _ \<Rightarrow> None) = None"
      by (auto split: list.splits)
    then have "parseTime s = None"
      using ne ok mp by (simp add: parseTime_def parts_def [symmetric] Let_def)
    with other show ?thesis by auto
  qed
qed

theorem parseTime_null_iff_witness:
  "parseTime ''1:02:03'' = Some \<lparr>hours = 1, minutes = 2, seconds = 3, totalSeconds = 3723\<rparr>
   \<and> totalSeconds \<lparr>hours = 1, minutes = 2, seconds = 3, totalSeconds = 3723\<rparr>
       = hours \<lparr>hours = 1, minutes = 2, seconds = 3, totalSeconds = 3723\<rparr> * 3600
         + minutes \<lparr>hours = 1, minutes = 2, seconds = 3, totalSeconds = 3723\<rparr> * 60
         + seconds \<lparr>hours = 1, minutes = 2, seconds = 3, totalSeconds = 3723\<rparr>
   \<and> parseTime ''12:75'' = None \<and> parseTime ''5'' = None \<and> parseTime ''ab:10'' = None"
proof -
  let ?r = "\<lparr>hours = 1, minutes = 2, seconds = 3, totalSeconds = 3723\<rparr>"
  have p: "parseTime ''1:02:03'' = Some ?r"
    by (simp add: parseTime_def Number_eval)
  from parseTime_null_iff [of "''1:02:03''"] p
  have a: "totalSeconds ?r = hours ?r * 3600 + minutes ?r * 60 + seconds ?r" by blast
  have n75: "the (Number ''75'') \<ge> 60" by (simp add: Number_eval)
  from parseTime_null_iff [of "''12:75''"] n75
  have b: "parseTime ''12:75'' = None" by simp
  from parseTime_null_iff [of "''5''"]
  have c: "parseTime ''5'' = None" by simp
  have nab: "Number ''ab'' = None" by (simp add: Number_eval)
  from parseTime_null_iff [of "''ab:10''"] nab
  have d: "parseTime ''ab:10'' = None" by simp
  from p a b c d show ?thesis by blast
qed


section \<open>Creating a plan\<close>

lemma generateTrainingBlock_six:
  "length (weeks (generateTrainingBlock n input v p)) = 6
   \<and> map weekNumber (weeks (generateTrainingBlock n input v p)) = [1, 2, 3, 4, 5, 6]
   \<and> blockNumber (generateTrainingBlock n input v p) = n
   \<and> vdot (generateTrainingBlock n input v p) = v
   \<and> paces (generateTrainingBlock n input v p) = p"
  by (simp add: generateTrainingBlock_def generateWeekPlan_def Let_def)

text \<open>
  The time "0:00" is parsed, to zero seconds, and createTrainingPlan rejects it with
  the message for an invalid 10K time.
\<close>

theorem createTrainingPlan_zero_time:
  "parseTimeString ''0:00'' = Some 0
   \<and> createTrainingPlan exactTest \<lparr>targetDistance = D10K, time5K = None, time10K = Some ''0:00'',
        trainingDays = 5, races = [], unit = Some Km\<rparr> = Inl (Error ''Invalid 10K time format'')"
  by (simp add: createTrainingPlan_def truthyString_def truthyNumber_def parseTimeString_def Number_eval)

text \<open>
  C1: createTrainingPlan raises "At least one race time is required" when neither time
  is given (absent or empty); it uses the 10K time when that is given, else the 5K
  time; it raises "Invalid 10K time format" (resp. 5K) when the time it uses does not
  parse or parses to zero seconds; in every other case it returns block number 1 with
  weeks 1 to 6, the VDOT of the time it used at that distance, and the paces of that
  VDOT.
\<close>

theorem createTrainingPlan_cases:
  fixes input :: UserInput
  defines "no10 \<equiv> time10K input = None \<or> time10K input = Some []"
  defines "no5 \<equiv> time5K input = None \<or> time5K input = Some []"
  shows
    "(no10 \<and> no5 \<longrightarrow>
        createTrainingPlan wt input = Inl (Error ''At least one race time is required''))
   \<and> (time10K input = Some s \<and> s \<noteq> [] \<and> (parseTimeString s = None \<or> parseTimeString s = Some 0) \<longrightarrow>
        createTrainingPlan wt input = Inl (Error ''Invalid 10K time format''))
   \<and> (no10 \<and> time5K input = Some s \<and> s \<noteq> [] \<and> (parseTimeString s = None \<or> parseTimeString s = Some 0) \<longrightarrow>
        createTrainingPlan wt input = Inl (Error ''Invalid 5K time format''))
   \<and> (time10K input = Some s \<and> s \<noteq> [] \<and> parseTimeString s = Some x \<and> x \<noteq> 0 \<longrightarrow>
        (\<exists>b. createTrainingPlan wt input = Inr b
             \<and> length (weeks b) = 6 \<and> map weekNumber (weeks b) = [1, 2, 3, 4, 5, 6]
             \<and> blockNumber b = 1
             \<and> vdot b = calculateVDOT (DISTANCE_METERS D10K) x
             \<and> paces b = calculatePaces wt (vdot b)))
   \<and> (no10 \<and> time5K input = Some s \<and> s \<noteq> [] \<and> parseTimeString s = Some x \<and> x \<noteq> 0 \<longrightarrow>
        (\<exists>b. createTrainingPlan wt input = Inr b
             \<and> length (weeks b) = 6 \<and> map weekNumber (weeks b) = [1, 2, 3, 4, 5, 6]
             \<and> blockNumber b = 1
             \<and> vdot b = calculateVDOT (DISTANCE_METERS D5K) x
             \<and> paces b = calculatePaces wt (vdot b)))"
proof -
  have n10: "no10 \<Longrightarrow> \<not> truthyString (time10K input)"
    by (auto simp: no10_def truthyString_def)
  have n5: "no5 \<Longrightarrow> \<not> truthyString (time5K input)"
    by (auto simp: no5_def truthyString_def)
  have c1: "no10 \<and> no5 \<longrightarrow>
        createTrainingPlan wt input = Inl (Error ''At least one race time is required'')"
    using n10 n5 by (simp add: createTrainingPlan_def)
  have c2: "time10K input = Some s \<and> s \<noteq> [] \<and> (parseTimeString s = None \<or> parseTimeString s = Some 0) \<longrightarrow>
        createTrainingPlan wt input = Inl (Error ''Invalid 10K time format'')"
    by (auto simp: createTrainingPlan_def truthyString_def truthyNumber_def)
  have c3: "no10 \<and> time5K input = Some s \<and> s \<noteq> [] \<and> (parseTimeString s = None \<or> parseTimeString s = Some 0) \<longrightarrow>
        createTrainingPlan wt input = Inl (Error ''Invalid 5K time format'')"
    using n10 by (auto simp: createTrainingPlan_def truthyString_def truthyNumber_def)
  have c4: "time10K input = Some s \<and> s \<noteq> [] \<and> parseTimeString s = Some x \<and> x \<noteq> 0 \<longrightarrow>
        (\<exists>b. createTrainingPlan wt input = Inr b
             \<and> length (weeks b) = 6 \<and> map weekNumber (weeks b) = [1, 2, 3, 4, 5, 6]
             \<and> blockNumber b = 1
             \<and> vdot b = calculateVDOT (DISTANCE_METERS D10K) x
             \<and> paces b = calculatePaces wt (vdot b))"
    using generateTrainingBlock_six
    by (auto simp: createTrainingPlan_def truthyString_def truthyNumber_def Let_def)
  have c5: "no10 \<and> time5K input = Some s \<and> s \<noteq> [] \<and> parseTimeString s = Some x \<and> x \<noteq> 0 \<longrightarrow>
        (\<exists>b. createTrainingPlan wt input = Inr b
             \<and> length (weeks b) = 6 \<and> map weekNumber (weeks b) = [1, 2, 3, 4, 5, 6]
             \<and> blockNumber b = 1
             \<and> vdot b = calculateVDOT (DISTANCE_METERS D5K) x
             \<and> paces b = calculatePaces wt (vdot b))"
    using n10 generateTrainingBlock_six
    by (auto simp: createTrainingPlan_def truthyString_def truthyNumber_def Let_def)
  from c1 c2 c3 c4 c5 show ?thesis by blast
qed

theorem createTrainingPlan_cases_witness:
  "createTrainingPlan exactTest \<lparr>targetDistance = D5K, time5K = None, time10K = None,
        trainingDays = 5, races = [], unit = None\<rparr>
     = Inl (Error ''At least one race time is required'')
   \<and> createTrainingPlan exactTest \<lparr>targetDistance = D5K, time5K = Some ''18:30'', time10K = Some ''37:xx'',
        trainingDays = 5, races = [], unit = None\<rparr>
     = Inl (Error ''Invalid 10K time format'')
   \<and> createTrainingPlan exactTest \<lparr>targetDistance = D5K, time5K = Some ''18'', time10K = None,
        trainingDays = 5, races = [], unit = None\<rparr>
     = Inl (Error ''Invalid 5K time format'')
   \<and> (\<exists>b. createTrainingPlan exactTest \<lparr>targetDistance = D10K, time5K = Some ''18:30'', time10K = Some ''37:00'',
        trainingDays = 5, races = [], unit = None\<rparr> = Inr b
        \<and> length (weeks b) = 6 \<and> vdot b = calculateVDOT (DISTANCE_METERS D10K) 2220)
   \<and> (\<exists>b. createTrainingPlan exactTest \<lparr>targetDistance = D10K, time5K = Some ''18:30'', time10K = Some [],
        trainingDays = 5, races = [], unit = None\<rparr> = Inr b
        \<and> length (weeks b) = 6 \<and> vdot b = calculateVDOT (DISTANCE_METERS D5K) 1110)"
proof -
  let ?i1 = "\<lparr>targetDistance = D5K, time5K = None, time10K = None,
        trainingDays = 5, races = [], unit = None\<rparr>"
  let ?i2 = "\<lparr>targetDistance = D5K, time5K = Some ''18:30'', time10K = Some ''37:xx'',
        trainingDays = 5, races = [], unit = None\<rparr>"
  let ?i3 = "\<lparr>targetDistance = D5K, time5K = Some ''18'', time10K = None,
        trainingDays = 5, races = [], unit = None\<rparr>"
  let ?i4 = "\<lparr>targetDistance = D10K, time5K = Some ''18:30'', time10K = Some ''37:00'',
        trainingDays = 5, races = [], unit = None\<rparr>"
  let ?i5 = "\<lparr>targetDistance = D10K, time5K = Some ''18:30'', time10K = Some [],
        trainingDays = 5, races = [], unit = None\<rparr>"
  have p2: "parseTimeString ''37:xx'' = None" by (simp add: parseTimeString_def Number_eval)
  have p3: "parseTimeString ''18'' = None" by (simp add: parseTimeString_def Number_eval)
  have p4: "parseTimeString ''37:00'' = Some 2220" by (simp add: parseTimeString_def Number_eval)
  have p5: "parseTimeString ''18:30'' = Some 1110" by (simp add: parseTimeString_def Number_eval)
  from createTrainingPlan_cases [where input = ?i1 and wt = exactTest]
  have a: "createTrainingPlan exactTest ?i1 = Inl (Error ''At least one race time is required'')" by simp
  from createTrainingPlan_cases [where input = ?i2 and s = "''37:xx''" and wt = exactTest] p2
  have b: "createTrainingPlan exactTest ?i2 = Inl (Error ''Invalid 10K time format'')" by simp
  from createTrainingPlan_cases [where input = ?i3 and s = "''18''" and wt = exactTest] p3
  have c: "createTrainingPlan exactTest ?i3 = Inl (Error ''Invalid 5K time format'')" by simp
  from createTrainingPlan_cases [where input = ?i4 and s = "''37:00''" and x = 2220 and wt = exactTest] p4
  have d: "\<exists>b. createTrainingPlan exactTest ?i4 = Inr b
        \<and> length (weeks b) = 6 \<and> vdot b = calculateVDOT (DISTANCE_METERS D10K) 2220"
    by auto
  from createTrainingPlan_cases [where input = ?i5 and s = "''18:30''" and x = 1110 and wt = exactTest] p5
  have e: "\<exists>b. createTrainingPlan exactTest ?i5 = Inr b
        \<and> length (weeks b) = 6 \<and> vdot b = calculateVDOT (DISTANCE_METERS D5K) 1110"
    by auto
  from a b c d e show ?thesis by blast
qed


section \<open>Race tapering\<close>

lemma taperInner_negative: "currentDay < 0 \<Longrightarrow> taperInner n currentDay ss = Inr (n, currentDay, ss)"
  by (cases n) simp_all

lemma taperOuter_stuck_aux:
  assumes t: "taperOuter n cw cd ss = Some r"
  shows "\<not> (0 < n \<and> cw = 0 \<and> cd < 0)"
proof (rule taperOuter.raw_induct
    [where P = "\<lambda>n cw cd ss r. \<not> (0 < n \<and> cw = 0 \<and> cd < 0)", OF _ t])
  fix f :: "nat \<Rightarrow> int \<Rightarrow> int \<Rightarrow> TrainingSession list \<Rightarrow> (error + TrainingSession list) option"
    and n :: nat and cw cd :: int and ss :: "TrainingSession list" and r
  assume IH: "\<And>n cw cd ss y. f n cw cd ss = Some y \<Longrightarrow> \<not> (0 < n \<and> cw = 0 \<and> cd < 0)"
  assume eq: "(if 0 < n \<and> 0 \<le> cw
      then case taperInner n cd ss of Inl e \<Rightarrow> Some (Inl e)
           | Inr r \<Rightarrow>
               if 0 < fst r \<and> 0 < cw
               then f (fst r) (cw - 1) 6 (snd (snd r))
               else f (fst r) cw (fst (snd r)) (snd (snd r))
      else Some (Inr ss)) = Some r"
  show "\<not> (0 < n \<and> cw = 0 \<and> cd < 0)"
  proof
    assume a: "0 < n \<and> cw = 0 \<and> cd < 0"
    with eq have "f n 0 cd ss = Some r"
      by (simp add: taperInner_negative)
    with IH a show False by blast
  qed
qed

lemma taperOuter_stuck: "0 < n \<Longrightarrow> cd < 0 \<Longrightarrow> taperOuter n 0 cd ss = None"
  using taperOuter_stuck_aux [of n 0 cd ss] by (cases "taperOuter n 0 cd ss") auto

lemma taperOuter_done: "n = 0 \<or> cw < 0 \<Longrightarrow> taperOuter n cw cd ss = Some (Inr ss)"
  by (subst taperOuter.simps) auto

lemma taperOuter_step:
  "0 < n \<Longrightarrow> 0 \<le> cw \<Longrightarrow> taperInner n cd ss = Inr (n', cd', ss') \<Longrightarrow>
   taperOuter n cw cd ss =
     (if 0 < n' \<and> 0 < cw then taperOuter n' (cw - 1) 6 ss' else taperOuter n' cw cd' ss')"
  by (subst taperOuter.simps) simp

lemma taperOuter_error:
  "0 < n \<Longrightarrow> 0 \<le> cw \<Longrightarrow> taperInner n cd ss = Inl e \<Longrightarrow> taperOuter n cw cd ss = Some (Inl e)"
  by (subst taperOuter.simps) simp

text \<open>The inner loop walks down from currentDay while days are left.\<close>

lemma taperInner_run:
  "- 1 \<le> cd \<Longrightarrow> cd < int (length ss) \<Longrightarrow>
   \<exists>ss'. length ss' = length ss \<and>
     taperInner n cd ss = Inr (n - nat (cd + 1), cd - int (min n (nat (cd + 1))), ss')"
proof (induction n arbitrary: cd ss)
  case 0
  then show ?case by simp
next
  case (Suc n)
  show ?case
  proof (cases "cd < 0")
    case True
    with Suc.prems have "cd = - 1" by simp
    then show ?thesis by simp
  next
    case False
    let ?ss = "ss[nat cd := taperSession (ss ! nat cd)]"
    from False Suc.prems have r: "- 1 \<le> cd - 1" "cd - 1 < int (length ?ss)" "nat cd < length ss"
      by simp_all
    have e1: "Suc n - nat (cd + 1) = n - nat (cd - 1 + 1)"
      using False by (simp add: nat_add_distrib)
    have e2: "cd - int (min (Suc n) (nat (cd + 1))) = cd - 1 - int (min n (nat (cd - 1 + 1)))"
      using False by (simp add: nat_add_distrib min_def)
    from Suc.IH [OF r(1,2)] obtain ss' where
      "length ss' = length ?ss"
      "taperInner n (cd - 1) ?ss = Inr (n - nat (cd - 1 + 1), cd - 1 - int (min n (nat (cd - 1 + 1))), ss')"
      by blast
    then show ?thesis
      using False r(3) unfolding e1 e2 by simp
  qed
qed

lemma taperOuter_week1_diverges:
  assumes "- 1 \<le> cd" and "cd < int (length ss)" and "nat (cd + 1) < n"
  shows "taperOuter n 0 cd ss = None"
proof -
  from taperInner_run [OF assms(1,2), of n] obtain ss' where
    i: "taperInner n cd ss = Inr (n - nat (cd + 1), cd - int (min n (nat (cd + 1))), ss')"
    by blast
  have m: "min n (nat (cd + 1)) = nat (cd + 1)" using assms(3) by simp
  have neg: "cd - int (min n (nat (cd + 1))) < 0" unfolding m using assms(1) by simp
  have pos: "0 < n - nat (cd + 1)" using assms(3) by simp
  have "taperOuter n 0 cd ss = taperOuter (n - nat (cd + 1)) 0 (cd - int (min n (nat (cd + 1)))) ss'"
    using assms(3) by (subst taperOuter_step [OF _ _ i]) simp_all
  also have "\<dots> = None" using pos neg by (rule taperOuter_stuck)
  finally show ?thesis .
qed


lemma taperOuter_midweek_A:
  assumes "length ss = 7"
  shows "taperOuter 7 1 1 ss = Some (Inr (map taperSession ss))"
proof -
  from assms obtain s0 s1 s2 s3 s4 s5 s6 where ss: "ss = [s0, s1, s2, s3, s4, s5, s6]"
    by (auto simp: length_Suc_conv eval_nat_numeral)
  have i1: "taperInner 7 1 ss = Inr (5, - 1, [taperSession s0, taperSession s1, s2, s3, s4, s5, s6])"
    by (simp add: ss eval_nat_numeral)
  have i2: "taperInner 5 6 [taperSession s0, taperSession s1, s2, s3, s4, s5, s6]
      = Inr (0, 1, [taperSession s0, taperSession s1, taperSession s2, taperSession s3,
                    taperSession s4, taperSession s5, taperSession s6])"
    by (simp add: eval_nat_numeral)
  have "taperOuter 7 1 1 ss = taperOuter 5 0 6 [taperSession s0, taperSession s1, s2, s3, s4, s5, s6]"
    by (subst taperOuter_step [OF _ _ i1]) simp_all
  also have "\<dots> = taperOuter 0 0 1 [taperSession s0, taperSession s1, taperSession s2, taperSession s3,
                    taperSession s4, taperSession s5, taperSession s6]"
    by (subst taperOuter_step [OF _ _ i2]) simp_all
  also have "\<dots> = Some (Inr (map taperSession ss))"
    by (simp add: taperOuter_done ss)
  finally show ?thesis .
qed

lemma createSession_title:
  "title (createSession dayNo cfg p week targetDist tw u) =
     (case cfgType cfg of
        Easy \<Rightarrow> ''Easy Run''
      | Threshold \<Rightarrow> ''NS '' @ (case cfgIntervalType cfg of None \<Rightarrow> ''Short'' | Some Short \<Rightarrow> ''Short''
                                   | Some Medium \<Rightarrow> ''Medium'' | Some LongInterval \<Rightarrow> ''Long'') @ '' Sub-T''
      | Long \<Rightarrow> ''Long Run''
      | Test \<Rightarrow> ''Test Day''
      | RaceDay \<Rightarrow> ''Race Day''
      | Rest \<Rightarrow> ''Rest'')"
  "day (createSession dayNo cfg p week targetDist tw u) = dayNo"
  by (cases "cfgType cfg"; cases "cfgIntervalType cfg"; simp add: createSession_def Let_def split: IntervalType.split)+

lemma exampleBlock_weeks: "length (weeks exampleBlock) = 6"
  by (simp add: exampleBlock_def weeks_generateTrainingBlock)

lemma exampleBlock_week2:
  "length (sessions (weeks exampleBlock ! 1)) = 7"
  "map (\<lambda>s. (day s, sessionType s, title s)) (sessions (weeks exampleBlock ! 1)) =
     [(1, Easy, ''Easy Run''), (2, Threshold, ''NS Short Sub-T''), (3, Easy, ''Easy Run''),
      (4, Threshold, ''NS Medium Sub-T''), (5, Easy, ''Easy Run''),
      (6, Threshold, ''NS Long Sub-T''), (7, Long, ''Long Run'')]"
  by (simp_all add: exampleBlock_def exampleInput_def weeks_generateTrainingBlock sessions_generateWeekPlan
        getWeekStructure_7 BASE_WEEK_STRUCTURE_def createSession_kind createSession_title)

lemma taperSession_view:
  "(day (taperSession s), sessionType (taperSession s), title (taperSession s)) =
     (if sessionType s = Threshold then (day s, Threshold, ''NS Intervals (Taper)'')
      else if sessionType s = Long then (day s, Easy, ''Easy Run (Taper)'')
      else (day s, sessionType s, title s))"
  by (simp add: taperSession_def)

text \<open>
  C6: for a priority race on Wednesday of week 2 of the example block, the taper of
  seven days should reach back to the Wednesday of week 1. The function returns a block
  whose week 1 is untouched; the days left over after Tuesday and Monday are spent on
  the race week itself, from its Sunday backwards: the long run after the race became a
  40-minute easy run and the Thursday and Saturday sessions after the race were relabelled.
\<close>

theorem applyRaceTapering_wraps_into_race_week:
  "\<exists>b'. applyRaceTapering exampleBlock exampleRace 2 3 = Some (Inr b')
     \<and> weeks b' ! 0 = weeks exampleBlock ! 0
     \<and> map (\<lambda>s. (day s, sessionType s, title s)) (sessions (weeks b' ! 1)) =
         [(1, Easy, ''Easy Run''), (2, Threshold, ''NS Intervals (Taper)''),
          (3, RaceDay, ''Race Day: City 10K''), (4, Threshold, ''NS Intervals (Taper)''),
          (5, Easy, ''Easy Run''), (6, Threshold, ''NS Intervals (Taper)''),
          (7, Easy, ''Easy Run (Taper)'')]"
proof -
  let ?w = "weeks exampleBlock ! 1"
  let ?ss0 = "(sessions ?w)[2 := raceSession exampleRace 3]"
  let ?b = "exampleBlock\<lparr>weeks := (weeks exampleBlock)[1 := ?w\<lparr>sessions := map taperSession ?ss0\<rparr>]\<rparr>"
  from exampleBlock_week2(1) obtain s0 s1 s2 s3 s4 s5 s6 where
    ss: "sessions ?w = [s0, s1, s2, s3, s4, s5, s6]"
    by (auto simp: length_Suc_conv eval_nat_numeral)
  have t: "taperOuter 7 1 1 ?ss0 = Some (Inr (map taperSession ?ss0))"
    using exampleBlock_week2(1) by (intro taperOuter_midweek_A) simp
  have ty: "raceType exampleRace = TypeA" by (simp add: exampleRace_def)
  have r: "applyRaceTapering exampleBlock exampleRace 2 3 = Some (Inr ?b)"
    unfolding applyRaceTapering_def Let_def
    using exampleBlock_week2(1) t exampleBlock_weeks ty by simp
  have w0: "weeks ?b ! 0 = weeks exampleBlock ! 0"
    by simp
  have rs: "(day (raceSession exampleRace 3), sessionType (raceSession exampleRace 3),
              title (raceSession exampleRace 3)) = (3, RaceDay, ''Race Day: City 10K'')"
    by (simp add: raceSession_def exampleRace_def)
  define view where "view = (\<lambda>s :: TrainingSession. (day s, sessionType s, title s))"
  define g where "g = (\<lambda>(d :: int, t, ti).
      if t = Threshold then (d, Threshold, ''NS Intervals (Taper)'')
      else if t = Long then (d, Easy, ''Easy Run (Taper)'') else (d, t, ti))"
  have vg: "view (taperSession s) = g (view s)" for s
    by (simp add: view_def g_def taperSession_def)
  have "map view (map taperSession ?ss0) = map g (map view ?ss0)"
    by (simp add: vg)
  also have "map view ?ss0 = (map view (sessions ?w))[2 := view (raceSession exampleRace 3)]"
    by (rule map_update)
  also have "map view (sessions ?w) =
     [(1, Easy, ''Easy Run''), (2, Threshold, ''NS Short Sub-T''), (3, Easy, ''Easy Run''),
      (4, Threshold, ''NS Medium Sub-T''), (5, Easy, ''Easy Run''),
      (6, Threshold, ''NS Long Sub-T''), (7, Long, ''Long Run'')]"
    unfolding view_def by (rule exampleBlock_week2(2))
  also have "view (raceSession exampleRace 3) = (3, RaceDay, ''Race Day: City 10K'')"
    unfolding view_def by (rule rs)
  finally have "map view (map taperSession ?ss0) =
         [(1, Easy, ''Easy Run''), (2, Threshold, ''NS Intervals (Taper)''),
          (3, RaceDay, ''Race Day: City 10K''), (4, Threshold, ''NS Intervals (Taper)''),
          (5, Easy, ''Easy Run''), (6, Threshold, ''NS Intervals (Taper)''),
          (7, Easy, ''Easy Run (Taper)'')]"
    by (simp add: g_def)
  moreover have "sessions (weeks ?b ! 1) = map taperSession ?ss0"
    using exampleBlock_weeks by simp
  ultimately have w1: "map (\<lambda>s. (day s, sessionType s, title s)) (sessions (weeks ?b ! 1)) =
         [(1, Easy, ''Easy Run''), (2, Threshold, ''NS Intervals (Taper)''),
          (3, RaceDay, ''Race Day: City 10K''), (4, Threshold, ''NS Intervals (Taper)''),
          (5, Easy, ''Easy Run''), (6, Threshold, ''NS Intervals (Taper)''),
          (7, Easy, ''Easy Run (Taper)'')]"
    unfolding view_def by simp
  show ?thesis
  proof (intro exI conjI)
    show "applyRaceTapering exampleBlock exampleRace 2 3 = Some (Inr ?b)" by (rule r)
    show "weeks ?b ! 0 = weeks exampleBlock ! 0" by (rule w0)
    show "map (\<lambda>s. (day s, sessionType s, title s)) (sessions (weeks ?b ! 1)) =
         [(1, Easy, ''Easy Run''), (2, Threshold, ''NS Intervals (Taper)''),
          (3, RaceDay, ''Race Day: City 10K''), (4, Threshold, ''NS Intervals (Taper)''),
          (5, Easy, ''Easy Run''), (6, Threshold, ''NS Intervals (Taper)''),
          (7, Easy, ''Easy Run (Taper)'')]" by (rule w1)
  qed
qed

lemma taperOuter_friday_B:
  assumes "length ss = 7"
  shows "taperOuter 3 2 3 ss =
    Some (Inr (ss[3 := taperSession (ss ! 3), 2 := taperSession (ss ! 2), 1 := taperSession (ss ! 1)]))"
proof -
  from assms obtain s0 s1 s2 s3 s4 s5 s6 where ss: "ss = [s0, s1, s2, s3, s4, s5, s6]"
    by (auto simp: length_Suc_conv eval_nat_numeral)
  have i1: "taperInner 3 3 ss = Inr (0, 0, [s0, taperSession s1, taperSession s2, taperSession s3, s4, s5, s6])"
    by (simp add: ss eval_nat_numeral)
  have "taperOuter 3 2 3 ss = taperOuter 0 2 0 [s0, taperSession s1, taperSession s2, taperSession s3, s4, s5, s6]"
    by (subst taperOuter_step [OF _ _ i1]) simp_all
  also have "\<dots> = Some (Inr (ss[3 := taperSession (ss ! 3), 2 := taperSession (ss ! 2), 1 := taperSession (ss ! 1)]))"
    by (simp add: taperOuter_done ss)
  finally show ?thesis .
qed

lemma exampleBlock_week_length: "i < 6 \<Longrightarrow> length (sessions (weeks exampleBlock ! i)) = 7"
proof -
  assume "i < 6"
  then have "i = 0 \<or> i = 1 \<or> i = 2 \<or> i = 3 \<or> i = 4 \<or> i = 5" by arith
  then show ?thesis
    by (elim disjE)
       (simp_all add: exampleBlock_def exampleInput_def weeks_generateTrainingBlock
          sessions_generateWeekPlan length_getWeekStructure)
qed

lemma taperOuter_returns:
  assumes "1 \<le> cw" "- 1 \<le> cd" "cd < 7" "length ss = 7" "n \<le> 7"
  shows "\<exists>ss'. taperOuter n cw cd ss = Some (Inr ss')"
proof (cases "n = 0")
  case True
  then show ?thesis by (simp add: taperOuter_done)
next
  case False
  from taperInner_run [of cd ss n] assms obtain ss1 where
    l1: "length ss1 = 7"
    and i1: "taperInner n cd ss = Inr (n - nat (cd + 1), cd - int (min n (nat (cd + 1))), ss1)"
    by auto
  define d1 where "d1 = n - nat (cd + 1)"
  have s1: "taperOuter n cw cd ss =
      (if 0 < d1 \<and> 0 < cw then taperOuter d1 (cw - 1) 6 ss1
       else taperOuter d1 cw (cd - int (min n (nat (cd + 1)))) ss1)"
    unfolding d1_def using False assms(1) by (intro taperOuter_step [OF _ _ i1]) simp_all
  show ?thesis
  proof (cases "d1 = 0")
    case True
    then show ?thesis unfolding s1 by (simp add: taperOuter_done)
  next
    case False
    from taperInner_run [of 6 ss1 d1] l1 obtain ss2 where
      i2: "taperInner d1 6 ss1 = Inr (d1 - nat (6 + 1), 6 - int (min d1 (nat (6 + 1))), ss2)"
      by auto
    have z: "d1 - nat (6 + 1) = 0" using assms(5) by (simp add: d1_def)
    have "taperOuter d1 (cw - 1) 6 ss1 = taperOuter 0 (cw - 1) (6 - int (min d1 (nat (6 + 1)))) ss2"
      using False assms(1) taperOuter_step [OF _ _ i2, of "cw - 1"] unfolding z by simp
    also have "\<dots> = Some (Inr ss2)" by (simp add: taperOuter_done)
    finally show ?thesis unfolding s1 using False assms(1) by simp
  qed
qed

lemma applyRaceTapering_returns:
  assumes "2 \<le> raceWeek" "raceWeek \<le> int (length (weeks block))"
    and "1 \<le> raceDay" "raceDay \<le> 7"
    and "length (sessions (weeks block ! nat (raceWeek - 1))) = 7"
  shows "\<exists>b'. applyRaceTapering block r raceWeek raceDay = Some (Inr b')"
proof -
  let ?w = "weeks block ! nat (raceWeek - 1)"
  let ?ss = "(sessions ?w)[nat (raceDay - 1) := raceSession r raceDay]"
  have "\<exists>ss'. taperOuter (if raceType r = TypeA then 7 else 3) (raceWeek - 1) (raceDay - 1 - 1) ?ss
      = Some (Inr ss')"
    using assms by (intro taperOuter_returns) simp_all
  then obtain ss' where
    "taperOuter (if raceType r = TypeA then 7 else 3) (raceWeek - 1) (raceDay - 1 - 1) ?ss = Some (Inr ss')"
    by blast
  then show ?thesis
    unfolding applyRaceTapering_def Let_def using assms by simp
qed


text \<open>
  What holds of the frame: when raceWeek is outside 1 .. number of weeks (1 .. 6 for a
  generated block), applyRaceTapering returns the block unchanged; every block it
  returns has the blockNumber, vdot and paces of the input, the same number of weeks,
  and every week other than the race week equal to the corresponding input week; and it
  does return a block for every race day 1 .. 7 in a week from the second on that has
  seven sessions.
\<close>

theorem applyRaceTapering_frame:
  "(raceWeek < 1 \<or> int (length (weeks block)) < raceWeek \<longrightarrow>
      applyRaceTapering block r raceWeek raceDay = Some (Inr block))
   \<and> (applyRaceTapering block r raceWeek raceDay = Some (Inr b') \<longrightarrow>
        blockNumber b' = blockNumber block \<and> vdot b' = vdot block \<and> paces b' = paces block
        \<and> length (weeks b') = length (weeks block)
        \<and> (\<forall>i<length (weeks block). int i \<noteq> raceWeek - 1 \<longrightarrow> weeks b' ! i = weeks block ! i))
   \<and> (2 \<le> raceWeek \<and> raceWeek \<le> int (length (weeks block)) \<and> 1 \<le> raceDay \<and> raceDay \<le> 7
        \<and> length (sessions (weeks block ! nat (raceWeek - 1))) = 7 \<longrightarrow>
        (\<exists>b. applyRaceTapering block r raceWeek raceDay = Some (Inr b)))"
proof (rule conjI, rule_tac [2] conjI; rule impI)
  assume "raceWeek < 1 \<or> int (length (weeks block)) < raceWeek"
  then show "applyRaceTapering block r raceWeek raceDay = Some (Inr block)"
    by (auto simp: applyRaceTapering_def Let_def)
next
  assume a: "applyRaceTapering block r raceWeek raceDay = Some (Inr b')"
  have "b' = block \<or> (0 \<le> raceWeek - 1 \<and> (\<exists>w. b' = block\<lparr>weeks := (weeks block)[nat (raceWeek - 1) := w]\<rparr>))"
    using a
    by (auto simp: applyRaceTapering_def Let_def split: if_splits option.splits sum.splits)
  then show "blockNumber b' = blockNumber block \<and> vdot b' = vdot block \<and> paces b' = paces block
        \<and> length (weeks b') = length (weeks block)
        \<and> (\<forall>i<length (weeks block). int i \<noteq> raceWeek - 1 \<longrightarrow> weeks b' ! i = weeks block ! i)"
    by (auto simp: nth_list_update)
next
  assume "2 \<le> raceWeek \<and> raceWeek \<le> int (length (weeks block)) \<and> 1 \<le> raceDay \<and> raceDay \<le> 7
        \<and> length (sessions (weeks block ! nat (raceWeek - 1))) = 7"
  then show "\<exists>b. applyRaceTapering block r raceWeek raceDay = Some (Inr b)"
    by (intro applyRaceTapering_returns) simp_all
qed

theorem applyRaceTapering_frame_witness:
  "length (weeks exampleBlock) = 6
   \<and> applyRaceTapering exampleBlock exampleRaceB 7 1 = Some (Inr exampleBlock)
   \<and> (\<exists>b. applyRaceTapering exampleBlock exampleRace 4 2 = Some (Inr b))
   \<and> (\<exists>b'. applyRaceTapering exampleBlock exampleRaceB 3 5 = Some (Inr b')
         \<and> blockNumber b' = blockNumber exampleBlock \<and> vdot b' = vdot exampleBlock
         \<and> paces b' = paces exampleBlock
         \<and> weeks b' ! 0 = weeks exampleBlock ! 0 \<and> weeks b' ! 1 = weeks exampleBlock ! 1
         \<and> weeks b' ! 5 = weeks exampleBlock ! 5)"
proof -
  let ?w = "weeks exampleBlock ! 2"
  let ?ss0 = "(sessions ?w)[4 := raceSession exampleRaceB 5]"
  let ?ss' = "?ss0[3 := taperSession (?ss0 ! 3), 2 := taperSession (?ss0 ! 2), 1 := taperSession (?ss0 ! 1)]"
  let ?b = "exampleBlock\<lparr>weeks := (weeks exampleBlock)[2 := ?w\<lparr>sessions := ?ss'\<rparr>]\<rparr>"
  have l: "length (sessions ?w) = 7" by (rule exampleBlock_week_length) simp
  have t: "taperOuter 3 2 3 ?ss0 = Some (Inr ?ss')"
    using l by (intro taperOuter_friday_B) simp
  have ty: "raceType exampleRaceB = TypeB" by (simp add: exampleRaceB_def)
  have r: "applyRaceTapering exampleBlock exampleRaceB 3 5 = Some (Inr ?b)"
    unfolding applyRaceTapering_def Let_def
    using l t exampleBlock_weeks ty by simp
  have out: "(7::int) < 1 \<or> int (length (weeks exampleBlock)) < 7"
    by (simp add: exampleBlock_weeks)
  from applyRaceTapering_frame [of 7 exampleBlock exampleRaceB 1] out
  have a: "applyRaceTapering exampleBlock exampleRaceB 7 1 = Some (Inr exampleBlock)" by blast
  from applyRaceTapering_frame [of 3 exampleBlock exampleRaceB 5 ?b] r
  have f: "blockNumber ?b = blockNumber exampleBlock \<and> vdot ?b = vdot exampleBlock
        \<and> paces ?b = paces exampleBlock
        \<and> (\<forall>i<length (weeks exampleBlock). int i \<noteq> 3 - 1 \<longrightarrow> weeks ?b ! i = weeks exampleBlock ! i)"
    by blast
  then have g: "weeks ?b ! 0 = weeks exampleBlock ! 0 \<and> weeks ?b ! 1 = weeks exampleBlock ! 1
         \<and> weeks ?b ! 5 = weeks exampleBlock ! 5"
    by (simp add: exampleBlock_weeks)
  have l4: "length (sessions (weeks exampleBlock ! nat (4 - 1))) = 7"
    by (rule exampleBlock_week_length) simp
  have in4: "(2 :: int) \<le> 4 \<and> 4 \<le> int (length (weeks exampleBlock)) \<and> (1 :: int) \<le> 2 \<and> (2 :: int) \<le> 7"
    by (simp add: exampleBlock_weeks)
  from applyRaceTapering_frame [of 4 exampleBlock exampleRace 2] in4 l4
  have ret: "\<exists>b. applyRaceTapering exampleBlock exampleRace 4 2 = Some (Inr b)" by blast
  show ?thesis
  proof (intro conjI)
    show "length (weeks exampleBlock) = 6" by (rule exampleBlock_weeks)
    show "applyRaceTapering exampleBlock exampleRaceB 7 1 = Some (Inr exampleBlock)" by (rule a)
    show "\<exists>b. applyRaceTapering exampleBlock exampleRace 4 2 = Some (Inr b)" by (rule ret)
    show "\<exists>b'. applyRaceTapering exampleBlock exampleRaceB 3 5 = Some (Inr b')
         \<and> blockNumber b' = blockNumber exampleBlock \<and> vdot b' = vdot exampleBlock
         \<and> paces b' = paces exampleBlock
         \<and> weeks b' ! 0 = weeks exampleBlock ! 0 \<and> weeks b' ! 1 = weeks exampleBlock ! 1
         \<and> weeks b' ! 5 = weeks exampleBlock ! 5"
    proof (intro conjI exI)
    show "applyRaceTapering exampleBlock exampleRaceB 3 5 = Some (Inr ?b)" by (rule r)
    show "blockNumber ?b = blockNumber exampleBlock" using f by blast
    show "vdot ?b = vdot exampleBlock" using f by blast
    show "paces ?b = paces exampleBlock" using f by blast
    show "weeks ?b ! 0 = weeks exampleBlock ! 0" using g by blast
    show "weeks ?b ! 1 = weeks exampleBlock ! 1" using g by blast
    show "weeks ?b ! 5 = weeks exampleBlock ! 5" using g by blast
    qed
  qed
qed


text \<open>
  In week 1 the outer loop never leaves once the days before the race are used up and
  taper days are left: no earlier week exists, and nothing changes any more. That is so
  for every priority race, and for a tune-up race on one of the first three days.
\<close>

lemma applyRaceTapering_week1_never_returns:
  assumes w: "weeks block \<noteq> []"
    and l: "length (sessions (weeks block ! 0)) = 7"
    and d: "1 \<le> raceDay" "raceDay \<le> 7"
    and t: "raceType r = TypeA \<or> raceDay \<le> 3"
  shows "applyRaceTapering block r 1 raceDay = None"
proof -
  let ?ss = "(sessions (weeks block ! 0))[nat (raceDay - 1) := raceSession r raceDay]"
  have "taperOuter (if raceType r = TypeA then 7 else 3) 0 (raceDay - 1 - 1) ?ss = None"
    using l d t by (intro taperOuter_week1_diverges) auto
  then show ?thesis
    unfolding applyRaceTapering_def Let_def using w l d by simp
qed

text \<open>
  C10: the frame of applyRaceTapering is claimed for every placement. For a race in
  week 1 of the example block there is no block to compare: the call does not return for
  the priority race on Monday, on Wednesday and on Sunday, nor for the tune-up race on
  Tuesday.
\<close>

theorem applyRaceTapering_week1_diverges:
  "applyRaceTapering exampleBlock exampleRace 1 1 = None
   \<and> applyRaceTapering exampleBlock exampleRace 1 3 = None
   \<and> applyRaceTapering exampleBlock exampleRace 1 7 = None
   \<and> applyRaceTapering exampleBlock exampleRaceB 1 2 = None"
proof -
  have w: "weeks exampleBlock \<noteq> []" using exampleBlock_weeks by auto
  have l: "length (sessions (weeks exampleBlock ! 0)) = 7"
    by (rule exampleBlock_week_length) simp
  have a: "raceType exampleRace = TypeA \<or> raceDay \<le> 3" for raceDay :: int
    by (simp add: exampleRace_def)
  show ?thesis
    by (intro conjI applyRaceTapering_week1_never_returns w l a) simp_all
qed

section \<open>Monotonicity of the VDOT in the time\<close>




















end
